theory Spec2Isabelle
  imports Complex_Main "HOL-Library.AList" "HOL-Library.Multiset" "HOL-Library.Sublist"
begin

section \<open>JavaScript values and helpers\<close>

text \<open>
  The server is sequential orchestration of awaited calls to three external services (the
  language model, the forum search and the mapping provider).  Every awaited call is modelled
  by its outcome, read from an environment record: \<open>Inl e\<close> when the call rejects, \<open>Inr v\<close>
  when it resolves to \<open>v\<close>.  A function of the server that can throw returns \<open>error + 'a\<close>;
  a function whose body is wrapped in a catch-all \<open>try\<close> returns its plain value.
  Strings are ASCII text; console output is not modelled.
\<close>

datatype error = TypeError | ReferenceError | SyntaxError | RequestFailed

text \<open>
  A plain object used as a dictionary is the list of its own properties in insertion order:
  \<open>obj[k]\<close> is \<open>map_of obj k\<close> (\<open>None\<close> for \<open>undefined\<close>) and \<open>obj[k] = v\<close> is
  \<open>AList.update k v obj\<close>, which overwrites in place or appends.  The scorer's dictionaries,
  whose keys are names the provider returns, are modelled with the properties they inherit;
  the keys of the other dictionaries are amenity types and names of scored neighborhoods.
\<close>

type_synonym 'v obj = "(string \<times> 'v) list"

definition lowerChar :: "char \<Rightarrow> char" where
  "lowerChar c =
     (case map_of (zip ''ABCDEFGHIJKLMNOPQRSTUVWXYZ'' ''abcdefghijklmnopqrstuvwxyz'') c of
        None \<Rightarrow> c
      | Some l \<Rightarrow> l)"

definition toLowerCase :: "string \<Rightarrow> string" where
  "toLowerCase s = map lowerChar s"

text \<open>\<open>s.includes(part)\<close>: \<open>part\<close> occurs in \<open>s\<close> as a contiguous run.\<close>

fun includes_str :: "string \<Rightarrow> string \<Rightarrow> bool" where
  "includes_str [] part = (part = [])"
| "includes_str (c # cs) part = (prefix part (c # cs) \<or> includes_str cs part)"

definition isSpace :: "char \<Rightarrow> bool" where
  "isSpace c = (c \<in> set [CHR '' '', CHR 0x09, CHR 0x0A, CHR 0x0B, CHR 0x0C, CHR 0x0D])"

text \<open>\<open>s.split(/\s+/)\<close>; the flag records that the previous character was white space.\<close>

fun splitSpaces :: "bool \<Rightarrow> string \<Rightarrow> string list" where
  "splitSpaces sp [] = [[]]"
| "splitSpaces sp (c # cs) =
     (if isSpace c then (if sp then splitSpaces True cs else [] # splitSpaces True cs)
      else (case splitSpaces False cs of [] \<Rightarrow> [[c]] | w # ws \<Rightarrow> (c # w) # ws))"

text \<open>\<open>xs.join(sep)\<close>\<close>

fun join :: "string \<Rightarrow> string list \<Rightarrow> string" where
  "join sep [] = []"
| "join sep [x] = x"
| "join sep (x # y # ys) = x @ sep @ join sep (y # ys)"

section \<open>The mapping provider\<close>

record latlng =
  lat :: real
  lng :: real

text \<open>A place as the provider returns it (\<open>name\<close>, \<open>geometry.location\<close>).\<close>

record gplace = latlng +
  name :: string

text \<open>A located amenity, as \<open>getAllAmenityCoordinates\<close> and \<open>getAmenityCoordinates\<close> return it.\<close>

record place = gplace +
  type :: string

record address_component =
  long_name :: string
  types :: "string list"

record geocode_result =
  location :: latlng
  address_components :: "address_component list option"
  formatted_address :: string

text \<open>The parameters of a nearby search; \<open>center\<close> is the source's \<open>location\<close>.\<close>

record nearby_params =
  center :: latlng
  radius :: nat
  keyword :: "string option"
  placeType :: string
  pagetoken :: "string option"

record nearby_response =
  results :: "gplace list option"
  next_page_token :: "string option"

record maps =
  geocode :: "string \<Rightarrow> error + geocode_result list"
  reverseGeocode :: "real \<Rightarrow> real \<Rightarrow> error + geocode_result list"
  placesNearby :: "nearby_params \<Rightarrow> error + nearby_response"

definition getCityCoordinates :: "maps \<Rightarrow> string \<Rightarrow> latlng option" where
  "getCityCoordinates m city =
     (case geocode m city of
        Inl e \<Rightarrow> None
      | Inr rs \<Rightarrow> (case rs of [] \<Rightarrow> None | r # _ \<Rightarrow> Some \<lparr>lat = lat (location r), lng = lng (location r)\<rparr>))"

definition toPlace :: "string \<Rightarrow> gplace \<Rightarrow> place" where
  "toPlace amenityType p = \<lparr>lat = lat p, lng = lng p, name = name p, type = amenityType\<rparr>"

definition brandParts :: "string \<Rightarrow> string list" where
  "brandParts brandName = filter (\<lambda>p. length p > 2) (splitSpaces False (toLowerCase brandName))"

text \<open>The strict brand filter of \<open>getAllAmenityCoordinates\<close>.\<close>

definition matchesBrandStrict :: "string \<Rightarrow> gplace \<Rightarrow> bool" where
  "matchesBrandStrict brandName p =
     (let placeName = toLowerCase (name p) in
      list_ex (\<lambda>part. includes_str placeName part) (brandParts brandName) \<and>
      \<not> includes_str placeName ''google'' \<and> \<not> includes_str placeName ''test'')"

text \<open>The brand filter of \<open>getAmenityCoordinates\<close>.\<close>

definition matchesBrand :: "string \<Rightarrow> gplace \<Rightarrow> bool" where
  "matchesBrand brandName p =
     (let placeName = toLowerCase (name p) in
      list_ex (\<lambda>part. includes_str placeName part) (brandParts brandName))"

text \<open>
  One iteration of a brand loop: a failed request is caught and logged, and adds nothing.
\<close>

definition searchBrand ::
  "maps \<Rightarrow> (string \<Rightarrow> gplace \<Rightarrow> bool) \<Rightarrow> latlng \<Rightarrow> string \<Rightarrow> string \<Rightarrow> gplace list" where
  "searchBrand m keep cityCoords amenityType brandName =
     (case placesNearby m \<lparr>center = cityCoords, radius = 8000, keyword = Some brandName,
                           placeType = amenityType, pagetoken = None\<rparr> of
        Inl e \<Rightarrow> []
      | Inr response \<Rightarrow>
          (case results response of None \<Rightarrow> [] | Some rs \<Rightarrow> filter (keep brandName) rs))"

text \<open>
  The page loop \<open>for (let page = 0; page < 3; page++)\<close>; the first argument counts the
  pages that remain.
\<close>

fun searchPages :: "nat \<Rightarrow> maps \<Rightarrow> latlng \<Rightarrow> string \<Rightarrow> string option \<Rightarrow> gplace list" where
  "searchPages 0 m cityCoords amenityType nextPageToken = []"
| "searchPages (Suc k) m cityCoords amenityType nextPageToken =
     (case placesNearby m \<lparr>center = cityCoords, radius = 8000, keyword = None,
                           placeType = amenityType, pagetoken = nextPageToken\<rparr> of
        Inl e \<Rightarrow> []
      | Inr response \<Rightarrow>
          (case results response of None \<Rightarrow> [] | Some rs \<Rightarrow> rs) @
          (case next_page_token response of
             None \<Rightarrow> []
           | Some tok \<Rightarrow> if tok = [] then [] else searchPages k m cityCoords amenityType (Some tok)))"

definition getAllAmenityCoordinates :: "maps \<Rightarrow> string \<Rightarrow> string \<Rightarrow> string list \<Rightarrow> place list" where
  "getAllAmenityCoordinates m city amenityType specificNames =
     (case getCityCoordinates m city of
        None \<Rightarrow> []
      | Some cityCoords \<Rightarrow>
          (let allPlaces =
             (if length specificNames > 0
              then concat (map (searchBrand m matchesBrandStrict cityCoords amenityType) specificNames)
              else searchPages 3 m cityCoords amenityType None)
           in map (toPlace amenityType) allPlaces))"

text \<open>
  The display-limited lookup of the amenity-first server: one unpaginated request when no
  brand is given (a failure there reaches the outer \<open>catch\<close> and yields the empty list), and
  \<open>places.slice(0, limit)\<close> at the end.
\<close>

definition getAmenityCoordinates :: "maps \<Rightarrow> string \<Rightarrow> string \<Rightarrow> nat \<Rightarrow> string list \<Rightarrow> place list" where
  "getAmenityCoordinates m city amenityType limit specificNames =
     (case getCityCoordinates m city of
        None \<Rightarrow> []
      | Some cityCoords \<Rightarrow>
          (if length specificNames > 0
           then map (toPlace amenityType)
                  (take limit (concat (map (searchBrand m matchesBrand cityCoords amenityType) specificNames)))
           else (case placesNearby m \<lparr>center = cityCoords, radius = 8000, keyword = None,
                                      placeType = amenityType, pagetoken = None\<rparr> of
                   Inl e \<Rightarrow> []
                 | Inr response \<Rightarrow>
                     map (toPlace amenityType)
                       (take limit (case results response of None \<Rightarrow> [] | Some rs \<Rightarrow> rs)))))"

text \<open>
  Reverse geocoding: the first component typed \<open>neighborhood\<close>, else the first typed
  \<open>locality\<close>, else the text of the formatted address before its first comma; \<open>None\<close> is
  the \<open>null\<close> returned on no result and on any error.
\<close>

definition getNeighborhoodFromCoordinates :: "maps \<Rightarrow> real \<Rightarrow> real \<Rightarrow> string option" where
  "getNeighborhoodFromCoordinates m la lo =
     (case reverseGeocode m la lo of
        Inl e \<Rightarrow> None
      | Inr rs \<Rightarrow>
          (case rs of
             [] \<Rightarrow> None
           | result # _ \<Rightarrow>
               (let addressComponents =
                      (case address_components result of None \<Rightarrow> [] | Some cs \<Rightarrow> cs)
                in case find (\<lambda>component. ''neighborhood'' \<in> set (types component)) addressComponents of
                     Some component \<Rightarrow> Some (long_name component)
                   | None \<Rightarrow>
                       (case find (\<lambda>component. ''locality'' \<in> set (types component)) addressComponents of
                          Some component \<Rightarrow> Some (long_name component)
                        | None \<Rightarrow> Some (takeWhile (\<lambda>c. c \<noteq> CHR '','') (formatted_address result))))))"

section \<open>The neighborhood scorer\<close>

text \<open>
  \<open>neighborhoodScores\<close> and \<open>neighborhoodAmenities\<close> are created by \<open>{}\<close>, so a lookup that
  finds no own property goes on to \<open>Object.prototype\<close>.  Neighborhood names come from the
  provider and can be any string.  The names of the functions every plain object inherits:
\<close>

definition inheritedFunctions :: "string list" where
  "inheritedFunctions =
     [''constructor'', ''hasOwnProperty'', ''isPrototypeOf'', ''propertyIsEnumerable'',
      ''toLocaleString'', ''toString'', ''valueOf'', ''__defineGetter__'', ''__defineSetter__'',
      ''__lookupGetter__'', ''__lookupSetter__'']"

text \<open>
  What \<open>neighborhoodScores[neighborhood]\<close> finds: an own property, an inherited function,
  \<open>Object.prototype\<close> itself (for \<open>__proto__\<close>), a non-zero number that an earlier iteration of
  the same call has left on \<open>Object.prototype\<close> (see \<open>attribute\<close>), or nothing.
\<close>

datatype found = OwnProperty | InheritedFunction | ThePrototype | LeftNumber | NotFound

definition resolves :: "'v obj \<Rightarrow> nat obj \<Rightarrow> string \<Rightarrow> found" where
  "resolves own proto key =
     (if map_of own key \<noteq> None then OwnProperty
      else if key \<in> set inheritedFunctions then InheritedFunction
      else if key = ''__proto__'' then ThePrototype
      else (case map_of proto key of
              None \<Rightarrow> NotFound
            | Some c \<Rightarrow> if c = 0 then NotFound else LeftNumber))"

text \<open>
  The state of the loops: \<open>neighborhoodScores\<close>, \<open>neighborhoodAmenities\<close>, and the numeric
  properties that the call has left on \<open>Object.prototype\<close>, by amenity type.  A call starts
  from a prototype without such properties.
\<close>

type_synonym tally = "(nat obj) obj \<times> (place list obj) obj \<times> nat obj"

text \<open>
  Lines 928 to 933 of the inner loop for a neighborhood that is an own property of both
  dictionaries.  Amenity types are place types of the provider's vocabulary, none of them an
  inherited name, so \<open>neighborhoodScores[neighborhood][amenityType]\<close> is the own count, else
  the number left on the prototype, else \<open>undefined\<close>.  When the count read is truthy and the
  list of amenities has no own entry for the type, the increment is stored and \<open>.push\<close> then
  throws a \<open>TypeError\<close>.
\<close>

definition countOwn :: "string \<Rightarrow> string \<Rightarrow> place \<Rightarrow> tally \<Rightarrow> tally \<times> error option" where
  "countOwn neighborhood amenityType amenity st =
     (let (scores, amenities, proto) = st;
          counts = (case map_of scores neighborhood of None \<Rightarrow> [] | Some cs \<Rightarrow> cs);
          listed = (case map_of amenities neighborhood of None \<Rightarrow> [] | Some ls \<Rightarrow> ls);
          seen = (case map_of counts amenityType of
                    None \<Rightarrow> map_of proto amenityType
                  | Some c \<Rightarrow> Some c);
          (counts1, listed1) =
             (if (case seen of None \<Rightarrow> True | Some c \<Rightarrow> c = 0)
              then (AList.update amenityType 0 counts, AList.update amenityType [] listed)
              else (counts, listed));
          counts2 = AList.update amenityType
                      ((case map_of counts1 amenityType of
                          None \<Rightarrow> (case seen of None \<Rightarrow> 0 | Some c \<Rightarrow> c)
                        | Some c \<Rightarrow> c) + 1) counts1
      in case map_of listed1 amenityType of
           None \<Rightarrow> ((AList.update neighborhood counts2 scores, amenities, proto), Some TypeError)
         | Some ps \<Rightarrow>
             ((AList.update neighborhood counts2 scores,
               AList.update neighborhood (AList.update amenityType (ps @ [amenity]) listed1) amenities,
               proto), None))"

text \<open>
  The body of the inner loop of \<open>scoreNeighborhoodsByAmenities\<close> for one located amenity: the
  new state, and the error if the iteration throws.  An amenity whose neighborhood is \<open>null\<close>
  or the empty string is skipped.  For a neighborhood that is not an own property:
  \<^item> nothing found: both dictionaries get an empty entry, and the count goes on as above;
  \<^item> an inherited function: the test on line 924 passes over it, the writes of lines 929 to
    932 land on the function object, and \<open>.push\<close> is called on a number: \<open>TypeError\<close>, with the
    dictionaries unchanged;
  \<^item> \<open>__proto__\<close>: the same writes land on \<open>Object.prototype\<close> and leave the incremented
    number there under the amenity type, then \<open>.push\<close> throws;
  \<^item> a number left on the prototype: the writes to a primitive are ignored and \<open>.push\<close>
    throws.
\<close>

definition attribute :: "maps \<Rightarrow> string \<Rightarrow> tally \<Rightarrow> place \<Rightarrow> tally \<times> error option" where
  "attribute m amenityType st amenity =
     (case getNeighborhoodFromCoordinates m (lat amenity) (lng amenity) of
        None \<Rightarrow> (st, None)
      | Some neighborhood \<Rightarrow>
          if neighborhood = [] then (st, None)
          else
            (let (scores, amenities, proto) = st
             in case resolves scores proto neighborhood of
                  OwnProperty \<Rightarrow> countOwn neighborhood amenityType amenity st
                | NotFound \<Rightarrow>
                    countOwn neighborhood amenityType amenity
                      (AList.update neighborhood [] scores, AList.update neighborhood [] amenities, proto)
                | InheritedFunction \<Rightarrow> (st, Some TypeError)
                | LeftNumber \<Rightarrow> (st, Some TypeError)
                | ThePrototype \<Rightarrow>
                    ((scores, amenities,
                      AList.update amenityType
                        ((case map_of proto amenityType of None \<Rightarrow> 0 | Some c \<Rightarrow> c) + 1) proto),
                     Some TypeError)))"

text \<open>
  The inner loop over the located amenities of one type.  It runs inside the \<open>try\<close> of the
  outer loop: an iteration that throws ends it, and the \<open>catch\<close> goes on to the next type.
\<close>

fun tallyPlaces :: "maps \<Rightarrow> string \<Rightarrow> tally \<Rightarrow> place list \<Rightarrow> tally" where
  "tallyPlaces m amenityType st [] = st"
| "tallyPlaces m amenityType st (amenity # rest) =
     (case attribute m amenityType st amenity of
        (st', None) \<Rightarrow> tallyPlaces m amenityType st' rest
      | (st', Some e) \<Rightarrow> st')"

text \<open>
  \<open>specificBrands[amenityType] || []\<close>.  For a type without own entry the lookup could find
  a number left on the prototype; having no \<open>length\<close>, it selects the generic search just as
  the empty list does.
\<close>

definition brandNamesFor :: "(string list) obj \<Rightarrow> string \<Rightarrow> string list" where
  "brandNamesFor specificBrands amenityType =
     (case map_of specificBrands amenityType of None \<Rightarrow> [] | Some ns \<Rightarrow> ns)"

definition tallyType :: "maps \<Rightarrow> string \<Rightarrow> (string list) obj \<Rightarrow> tally \<Rightarrow> string \<Rightarrow> tally" where
  "tallyType m city specificBrands st amenityType =
     tallyPlaces m amenityType st
       (getAllAmenityCoordinates m city amenityType (brandNamesFor specificBrands amenityType))"

record scored =
  neighborhood :: string
  amenityScore :: nat
  amenityCounts :: "nat obj"
  totalAmenities :: nat
  amenityTypes :: nat

definition scoreEntry :: "string \<times> nat obj \<Rightarrow> scored" where
  "scoreEntry e =
     (let (neighborhood, amenityCount) = e;
          totalAmenities = foldl (\<lambda>a b. a + b) 0 (map snd amenityCount);
          amenityTypes = length (map fst amenityCount);
          score = totalAmenities + (amenityTypes * 5)
      in \<lparr>neighborhood = neighborhood, amenityScore = score, amenityCounts = amenityCount,
          totalAmenities = totalAmenities, amenityTypes = amenityTypes\<rparr>)"

text \<open>
  \<open>sort((a, b) => b.amenityScore - a.amenityScore)\<close>: the stable sort by descending score.
\<close>

definition sortByScore :: "scored list \<Rightarrow> scored list" where
  "sortByScore rs = sort_key (\<lambda>r. - int (amenityScore r)) rs"

record score_result =
  scoredNeighborhoods :: "scored list"
  neighborhoodAmenities :: "(place list obj) obj"

definition scoreNeighborhoodsByAmenities ::
  "maps \<Rightarrow> string \<Rightarrow> string list \<Rightarrow> (string list) obj \<Rightarrow> score_result" where
  "scoreNeighborhoodsByAmenities m city amenitiesNeeded specificBrands =
     (let (scores, amenities, proto) =
            foldl (tallyType m city specificBrands) ([], [], []) amenitiesNeeded
      in \<lparr>scoredNeighborhoods = sortByScore (map scoreEntry scores),
          neighborhoodAmenities = amenities\<rparr>)"

section \<open>Parsed model replies and the relevance filter\<close>

text \<open>
  The value \<open>JSON.parse\<close> returns.  The reply of the language model reaches the server as
  text; the server strips the code fences and parses it.  The model's calls are read from the
  environment after these two steps: \<open>Inl e\<close> when the awaited call rejects, \<open>Inr None\<close> when
  \<open>JSON.parse\<close> throws on the stripped text, \<open>Inr (Some v)\<close> when it returns \<open>v\<close>.
\<close>

datatype json =
    JNull
  | JBool bool
  | JNum real
  | JStr string
  | JArr "json list"
  | JObj "(string \<times> json) list"

text \<open>
  Reading one of the property names the server reads (\<open>postIndex\<close>, \<open>isRelevant\<close>) from a
  parsed value: a \<open>TypeError\<close> on \<open>null\<close>, \<open>undefined\<close> (here \<open>None\<close>) on an object without
  the property and on every number, string, boolean and array.
\<close>

fun getProp :: "json \<Rightarrow> string \<Rightarrow> error + json option" where
  "getProp JNull k = Inl TypeError"
| "getProp (JObj kvs) k = Inr (map_of kvs k)"
| "getProp v k = Inr None"

fun truthy :: "json \<Rightarrow> bool" where
  "truthy JNull = False"
| "truthy (JBool b) = b"
| "truthy (JNum x) = (x \<noteq> 0)"
| "truthy (JStr s) = (s \<noteq> [])"
| "truthy (JArr xs) = True"
| "truthy (JObj kvs) = True"

text \<open>The predicate \<open>s => s.postIndex === i + 1\<close> for the post at index \<open>i\<close>.\<close>

definition matchesIndex :: "nat \<Rightarrow> json \<Rightarrow> error + bool" where
  "matchesIndex i s =
     (case getProp s ''postIndex'' of
        Inl e \<Rightarrow> Inl e
      | Inr v \<Rightarrow> Inr (v = Some (JNum (real (i + 1)))))"

text \<open>\<open>Array.prototype.find\<close> with a predicate that can throw.\<close>

fun findFirst :: "('a \<Rightarrow> error + bool) \<Rightarrow> 'a list \<Rightarrow> error + 'a option" where
  "findFirst p [] = Inr None"
| "findFirst p (x # xs) =
     (case p x of
        Inl e \<Rightarrow> Inl e
      | Inr b \<Rightarrow> if b then Inr (Some x) else findFirst p xs)"

text \<open>
  The callback of \<open>posts.filter\<close> at index \<open>i\<close>.  \<open>relevanceScores.find\<close> is a function only
  when the parsed value is an array; on anything else the call throws a \<open>TypeError\<close>.
\<close>

definition keepsPost :: "json \<Rightarrow> nat \<Rightarrow> error + bool" where
  "keepsPost relevanceScores i =
     (case relevanceScores of
        JArr verdicts \<Rightarrow>
          (case findFirst (matchesIndex i) verdicts of
             Inl e \<Rightarrow> Inl e
           | Inr None \<Rightarrow> Inr False
           | Inr (Some score) \<Rightarrow>
               if truthy score
               then (case getProp score ''isRelevant'' of
                       Inl e \<Rightarrow> Inl e
                     | Inr None \<Rightarrow> Inr False
                     | Inr (Some v) \<Rightarrow> Inr (truthy v))
               else Inr False)
      | _ \<Rightarrow> Inl TypeError)"

text \<open>\<open>xs.filter((_, i) => p(i))\<close> from index \<open>i\<close> on, with a callback that can throw.\<close>

fun filterIndexed :: "(nat \<Rightarrow> error + bool) \<Rightarrow> nat \<Rightarrow> 'a list \<Rightarrow> error + 'a list" where
  "filterIndexed p i [] = Inr []"
| "filterIndexed p i (x # xs) =
     (case p i of
        Inl e \<Rightarrow> Inl e
      | Inr b \<Rightarrow>
          (case filterIndexed p (Suc i) xs of
             Inl e \<Rightarrow> Inl e
           | Inr ys \<Rightarrow> Inr (if b then x # ys else ys)))"

record amenity_request =
  requestedType :: string
  specificNames :: "string list option"

text \<open>
  One entry of \<open>recommendations.recommendations\<close> in a response.  The amenity-first server
  fills \<open>amenityBreakdown\<close> and sends no \<open>matchScore\<close>; the query-first server forwards the
  entries the model wrote, which carry a \<open>matchScore\<close> and no breakdown.
\<close>

record recommendation =
  recNeighborhood :: string
  matchScore :: "real option"
  matchReasons :: "string list"
  concerns :: "string list"
  amenityBreakdown :: "nat obj option"

record parsed_preferences =
  extractedPreferences :: "string list"
  redditQueries :: "string list"

text \<open>
  The analysis reply of the query-first server: no \<open>{...}\<close> in the text, a match that
  \<open>JSON.parse\<close> rejects, or the parsed object with its entries and its summary.
\<close>

datatype analysis = NoJsonFound | InvalidJson | Analysis "recommendation list" "string option"

text \<open>
  The calls to the language model, one field for each prompt of the amenity-first server
  (the first five) and of the query-first server (the last three, and \<open>filterReply\<close>),
  indexed by the values the prompt is built from.  Apart from the relevance filter, a reply
  that parses is taken to have the shape its prompt asks for.
\<close>

record llm =
  amenityReply :: "string \<Rightarrow> error + amenity_request list option"
  qualitativeReply :: "string \<Rightarrow> string \<Rightarrow> error + string list option"
  filterReply :: "string \<Rightarrow> string list \<Rightarrow> error + json option"
  scoringReply :: "string \<Rightarrow> string \<Rightarrow> string list \<Rightarrow> string \<Rightarrow> error + (real obj) option"
  concernsReply :: "string \<Rightarrow> string \<Rightarrow> string list \<Rightarrow> string \<Rightarrow> error + ((string list) obj) option"
  parsingReply :: "string \<Rightarrow> string \<Rightarrow> error + parsed_preferences option"
  analysisReply :: "string \<Rightarrow> string \<Rightarrow> string \<Rightarrow> string list \<Rightarrow> error + analysis"
  amenityTypesReply :: "string \<Rightarrow> error + string list option"

definition filterRelevantPosts :: "llm \<Rightarrow> string list \<Rightarrow> string \<Rightarrow> error + string list" where
  "filterRelevantPosts l posts preferences =
     (case filterReply l preferences posts of
        Inl e \<Rightarrow> Inl e
      | Inr None \<Rightarrow> Inr posts
      | Inr (Some relevanceScores) \<Rightarrow> filterIndexed (keepsPost relevanceScores) 0 posts)"

text \<open>A relevance verdict of the shape the prompt asks for, and the value it parses to.\<close>

record verdict =
  postIndex :: int
  isRelevant :: bool
  reason :: string

definition verdictJson :: "verdict \<Rightarrow> json" where
  "verdictJson v =
     JObj [(''postIndex'', JNum (of_int (postIndex v))),
           (''isRelevant'', JBool (isRelevant v)),
           (''reason'', JStr (reason v))]"

section \<open>Forum discovery and post retrieval\<close>

record subreddit_data =
  subscribers :: int
  over18 :: bool
  display_name :: "string option"
  public_description :: "string option"

record post_data =
  title :: "string option"
  selftext :: "string option"
  subreddit :: string

text \<open>
  The two searches of the forum service, indexed by the query text; \<open>Inr None\<close> is a response
  without \<open>data.data.children\<close>.
\<close>

record reddit =
  subredditSearch :: "string \<Rightarrow> error + subreddit_data list option"
  postSearch :: "string \<Rightarrow> error + post_data list option"

text \<open>
  The relevance test of \<open>discoverSubreddits\<close>, with the short-circuit order of the source:
  calling \<open>toLowerCase\<close> on a missing name or description throws.
\<close>

definition relevantSubreddit :: "string \<Rightarrow> subreddit_data \<Rightarrow> error + bool" where
  "relevantSubreddit city sr =
     (if \<not> subscribers sr > 100 then Inr False
      else if over18 sr then Inr False
      else (case display_name sr of
              None \<Rightarrow> Inl TypeError
            | Some dn \<Rightarrow>
                if includes_str (toLowerCase dn) (toLowerCase city) then Inr True
                else (case public_description sr of
                        None \<Rightarrow> Inl TypeError
                      | Some pd \<Rightarrow>
                          Inr (includes_str (toLowerCase pd) ''neighborhood'' \<or>
                               includes_str (toLowerCase pd) ''live'' \<or>
                               includes_str (toLowerCase pd) ''ask''))))"

fun collectSubreddits :: "string \<Rightarrow> subreddit_data list \<Rightarrow> string list \<Rightarrow> error + string list" where
  "collectSubreddits city [] subreddits = Inr subreddits"
| "collectSubreddits city (sr # children) subreddits =
     (case relevantSubreddit city sr of
        Inl e \<Rightarrow> Inl e
      | Inr b \<Rightarrow>
          collectSubreddits city children
            (if b then subreddits @ [case display_name sr of None \<Rightarrow> [] | Some dn \<Rightarrow> dn]
             else subreddits))"

text \<open>The body of the \<open>try\<close> block of \<open>discoverSubreddits\<close>.\<close>

definition searchSubreddits :: "reddit \<Rightarrow> string \<Rightarrow> error + string list" where
  "searchSubreddits r city =
     (case subredditSearch r city of
        Inl e \<Rightarrow> Inl e
      | Inr response \<Rightarrow>
          (case collectSubreddits city (case response of None \<Rightarrow> [] | Some children \<Rightarrow> children) [] of
             Inl e \<Rightarrow> Inl e
           | Inr subreddits \<Rightarrow>
               if length subreddits > 0 then Inr subreddits
               else (let cityLower = toLowerCase city
                     in Inr (filter (\<lambda>s. length s > 0)
                               [cityLower, cityLower @ ''housing'', ''Ask'' @ city,
                                cityLower @ ''neighborhoods'']))))"

text \<open>
  \<open>discoverSubreddits\<close>: whatever the \<open>try\<close> block throws is caught and replaced by the
  two-element fallback.  The result type keeps the error case, so that not throwing is a
  statement about the function.
\<close>

definition discoverSubreddits :: "reddit \<Rightarrow> string \<Rightarrow> error + string list" where
  "discoverSubreddits r city =
     (case searchSubreddits r city of
        Inl e \<Rightarrow> (let cityLower = toLowerCase city in Inr [cityLower, ''Ask'' @ city])
      | Inr subreddits \<Rightarrow> Inr subreddits)"

text \<open>A post with a title and a body becomes one text; the others are dropped.\<close>

definition postContent :: "post_data \<Rightarrow> string option" where
  "postContent post =
     (case (title post, selftext post) of
        (Some t, Some b) \<Rightarrow>
          if t \<noteq> [] \<and> b \<noteq> []
          then Some (''Title: '' @ t @ [CHR 0x0A] @ ''Content: '' @ take 300 b @ [CHR 0x0A] @
                     ''Subreddit: r/'' @ subreddit post)
          else None
      | _ \<Rightarrow> None)"

text \<open>One iteration of the query loop of \<open>scrapeReddit\<close>; a failed search is logged and skipped.\<close>

definition scrapeQuery :: "reddit \<Rightarrow> string list \<Rightarrow> string \<Rightarrow> string list" where
  "scrapeQuery r subreddits query =
     (let subredditFilter = join '' OR '' (map (\<lambda>s. ''subreddit:'' @ s) subreddits);
          fullQuery = query @ '' '' @ subredditFilter
      in case postSearch r fullQuery of
           Inl e \<Rightarrow> []
         | Inr None \<Rightarrow> []
         | Inr (Some children) \<Rightarrow> List.map_filter postContent children)"

definition scrapeReddit ::
  "reddit \<Rightarrow> string list \<Rightarrow> string option \<Rightarrow> string list option \<Rightarrow> error + string list" where
  "scrapeReddit r queries city subreddits =
     (case (case subreddits of
              Some given \<Rightarrow> Inr (Some given)
            | None \<Rightarrow>
                (case city of
                   None \<Rightarrow> Inr None
                 | Some c \<Rightarrow>
                     if c = [] then Inr None
                     else (case discoverSubreddits r c of Inl e \<Rightarrow> Inl e | Inr found \<Rightarrow> Inr (Some found)))) of
        Inl e \<Rightarrow> Inl e
      | Inr chosen \<Rightarrow>
          (let subs = (case chosen of None \<Rightarrow> [''AskReddit''] | Some found \<Rightarrow> found)
           in Inr (concat (map (scrapeQuery r subs) queries))))"

section \<open>The recommendation endpoint\<close>

text \<open>
  The source holds the handler of \<open>POST /api/recommendations\<close> in three revisions.  Two are
  modelled: the amenity-first server, which scores neighborhoods from located amenities, and
  the query-first server, which asks the model for the recommendations and adds map data.
  The oldest revision is the query-first server without boundaries, with the amenity types
  taken from keywords of the preferences; it is not modelled.  A property that the scorer
  leaves on \<open>Object.prototype\<close> is followed inside the scorer only, not through the rest of
  the handler.
\<close>

record request =
  reqCity :: "string option"
  reqPreferences :: "string option"

record feature =
  geometryType :: string
  coordinates :: json
  bbox :: "(real \<times> real \<times> real \<times> real) option"

record boundary =
  boundaryNeighborhood :: string
  boundaryType :: string
  boundaryCoordinates :: json
  boundaryCenter :: "latlng option"

record world =
  theMaps :: maps
  theReddit :: reddit
  theLlm :: llm
  boundarySearch :: "string \<Rightarrow> error + feature list"

record map_data =
  cityCoordinates :: "latlng option"
  amenities :: "(place list) obj"
  mapNeighborhoodAmenities :: "((place list) obj) obj option"
  neighborhoods :: "boundary list option"

text \<open>
  The body of a successful response; \<open>recommendations\<close> and \<open>summary\<close> are the two fields of
  the object the source calls \<open>recommendations\<close>.
\<close>

record body =
  bodyCity :: string
  userPreferences :: string
  recommendations :: "recommendation list"
  summary :: "string option"
  mapData :: "map_data option"

datatype response = Ok body | BadRequest string | ServerError error

fun status :: "response \<Rightarrow> nat" where
  "status (Ok b) = 200"
| "status (BadRequest msg) = 400"
| "status (ServerError e) = 500"

text \<open>A count in a template literal.\<close>

function showNat :: "nat \<Rightarrow> string" where
  "showNat n =
     (if n < 10 then [''0123456789'' ! n] else showNat (n div 10) @ [''0123456789'' ! (n mod 10)])"
  by pat_completeness auto
termination
  by (relation "measure id") auto

declare showNat.simps [simp del]

subsection \<open>The amenity-first server\<close>

text \<open>
  Step 1.  Everything inside the \<open>try\<close> that throws (\<open>JSON.parse\<close>, or the walk over
  \<open>parsed.amenities\<close>) ends in the \<open>catch\<close>, which sets the default amenity list.
\<close>

definition extractAmenities :: "amenity_request list option \<Rightarrow> string list \<times> (string list) obj" where
  "extractAmenities parsed =
     (case parsed of
        None \<Rightarrow> ([''gym'', ''grocery_or_supermarket''], [])
      | Some requested \<Rightarrow>
          (map requestedType requested,
           foldl (\<lambda>specificBrands a.
                    AList.update (requestedType a)
                      (case specificNames a of None \<Rightarrow> [] | Some ns \<Rightarrow> ns) specificBrands)
             [] requested))"

text \<open>The rule-based concerns for a neighborhood the model gave none for.\<close>

definition fallbackConcerns :: "nat \<Rightarrow> nat \<Rightarrow> (string list) obj \<Rightarrow> scored \<Rightarrow> (string list) obj" where
  "fallbackConcerns requested scraped concernsMap n =
     (if (case map_of concernsMap (neighborhood n) of None \<Rightarrow> True | Some cs \<Rightarrow> length cs = 0)
      then
        (let found =
               (if totalAmenities n < 5 then [''Limited number of requested amenities nearby''] else []) @
               (if amenityTypes n < requested
                then [''Not all requested amenity types available in this neighborhood''] else []) @
               (if scraped = 0 then [''Limited community feedback available''] else []);
             given = (if length found = 0
                      then [''Research more on community forums and local resources''] else found)
         in AList.update (neighborhood n) given concernsMap)
      else concernsMap)"

definition toRecommendation :: "nat \<Rightarrow> nat \<Rightarrow> (string list) obj \<Rightarrow> scored \<Rightarrow> recommendation" where
  "toRecommendation requested scraped concernsMap n =
     (let reasons =
            (if totalAmenities n > 0
             then [showNat (totalAmenities n) @ '' '' @
                   (if requested > 1 then ''amenities'' else ''amenity'') @ '' nearby'']
             else []) @
            (if length (amenityCounts n) > 0
             then [showNat (length (amenityCounts n)) @ '' types of amenities''] else []) @
            (if scraped > 0 then [''Well-reviewed on community forums''] else [])
      in \<lparr>recNeighborhood = neighborhood n,
          matchScore = None,
          matchReasons = (if length reasons > 0 then reasons else [''Strong neighborhood match'']),
          concerns = (case map_of concernsMap (neighborhood n) of None \<Rightarrow> [] | Some cs \<Rightarrow> cs),
          amenityBreakdown = Some (amenityCounts n)\<rparr>)"

text \<open>\<open>mapData.amenities\<close>: the display lookup for each requested type, at most 10 places.\<close>

definition displayAmenities :: "maps \<Rightarrow> string \<Rightarrow> string list \<Rightarrow> (string list) obj \<Rightarrow> (place list) obj" where
  "displayAmenities m city amenitiesNeeded specificBrands =
     foldl (\<lambda>shown amenityType.
              AList.update amenityType
                (getAmenityCoordinates m city amenityType 10 (brandNamesFor specificBrands amenityType))
                shown)
       [] amenitiesNeeded"

text \<open>\<open>mapData.neighborhoodAmenities\<close>: for each entry and each requested type, the first five
  amenities attributed to the neighborhood.\<close>

definition neighborhoodSubsets ::
  "string list \<Rightarrow> (place list obj) obj \<Rightarrow> recommendation list \<Rightarrow> ((place list) obj) obj" where
  "neighborhoodSubsets amenitiesNeeded attributed recs =
     foldl (\<lambda>shown rec.
              AList.update (recNeighborhood rec)
                (foldl (\<lambda>inner amenityType.
                          AList.update amenityType
                            (case map_of attributed (recNeighborhood rec) of
                               None \<Rightarrow> []
                             | Some byType \<Rightarrow>
                                 (case map_of byType amenityType of
                                    None \<Rightarrow> []
                                  | Some ps \<Rightarrow> take 5 ps))
                            inner)
                   [] amenitiesNeeded)
                shown)
       [] recs"

text \<open>Steps 3 and 4 and the assembly of the response, for a non-empty ranking.\<close>

definition qualitativeStage ::
  "world \<Rightarrow> string \<Rightarrow> string \<Rightarrow> string list \<Rightarrow> (string list) obj \<Rightarrow> score_result \<Rightarrow> response" where
  "qualitativeStage w city preferences amenitiesNeeded specificBrands ranked =
     (case qualitativeReply (theLlm w) city preferences of
        Inl e \<Rightarrow> ServerError e
      | Inr parsedQueries \<Rightarrow>
          (let queries =
                 (case parsedQueries of
                    None \<Rightarrow> [''neighborhoods in '' @ city, ''best places to live in '' @ city]
                  | Some qs \<Rightarrow> qs)
           in case scrapeReddit (theReddit w) queries (Some city) None of
                Inl e \<Rightarrow> ServerError e
              | Inr redditPosts \<Rightarrow>
                  (case (if length redditPosts > 0
                         then filterRelevantPosts (theLlm w) redditPosts preferences
                         else Inr []) of
                     Inl e \<Rightarrow> ServerError e
                   | Inr filteredPosts \<Rightarrow>
                       (let redditData =
                              (if length filteredPosts > 0 then join [CHR 0x0A] filteredPosts
                               else ''Limited Reddit posts found.'');
                            top = take 5 (scoredNeighborhoods ranked);
                            topNeighborhoods = map neighborhood top
                        in case scoringReply (theLlm w) city preferences topNeighborhoods redditData of
                             Inl e \<Rightarrow> ServerError e
                           | Inr qualitativeScores \<Rightarrow>
                               (case concernsReply (theLlm w) city preferences topNeighborhoods redditData of
                                  Inl e \<Rightarrow> ServerError e
                                | Inr parsedConcerns \<Rightarrow>
                                    (let concernsMap =
                                           foldl (fallbackConcerns (length amenitiesNeeded) (length redditPosts))
                                             (case parsedConcerns of None \<Rightarrow> [] | Some cm \<Rightarrow> cm) top;
                                         recs = map (toRecommendation (length amenitiesNeeded)
                                                       (length redditPosts) concernsMap) top
                                     in Ok \<lparr>bodyCity = city,
                                            userPreferences = preferences,
                                            recommendations = recs,
                                            summary = None,
                                            mapData = Some
                                              \<lparr>cityCoordinates = getCityCoordinates (theMaps w) city,
                                               amenities = displayAmenities (theMaps w) city
                                                             amenitiesNeeded specificBrands,
                                               mapNeighborhoodAmenities = Some
                                                 (neighborhoodSubsets amenitiesNeeded
                                                    (neighborhoodAmenities ranked) recs),
                                               neighborhoods = None\<rparr>\<rparr>))))))"

text \<open>
  Step 2.  With amenities requested, an empty ranking ends the request with status 400.
  With none requested, the branch builds its prompt from \<open>redditData\<close>, a \<open>const\<close> declared
  further down in the same block and therefore not yet initialised: reading it throws a
  \<open>ReferenceError\<close>, which the handler's outer \<open>catch\<close> turns into status 500.
\<close>

definition scoringStage ::
  "world \<Rightarrow> string \<Rightarrow> string \<Rightarrow> string list \<Rightarrow> (string list) obj \<Rightarrow> response" where
  "scoringStage w city preferences amenitiesNeeded specificBrands =
     (if length amenitiesNeeded > 0
      then (let ranked = scoreNeighborhoodsByAmenities (theMaps w) city amenitiesNeeded specificBrands
            in if length (scoredNeighborhoods ranked) = 0
               then BadRequest (''No neighborhoods found with requested amenities in '' @ city)
               else qualitativeStage w city preferences amenitiesNeeded specificBrands ranked)
      else ServerError ReferenceError)"

text \<open>\<open>!city || !preferences\<close>: the field is absent or the empty string.\<close>

definition missing :: "string option \<Rightarrow> bool" where
  "missing field = (case field of None \<Rightarrow> True | Some s \<Rightarrow> s = [])"

definition recommendationsAmenityFirst :: "world \<Rightarrow> request \<Rightarrow> response" where
  "recommendationsAmenityFirst w req =
     (case (reqCity req, reqPreferences req) of
        (Some city, Some preferences) \<Rightarrow>
          if city = [] \<or> preferences = []
          then BadRequest ''City and preferences are required''
          else (case amenityReply (theLlm w) preferences of
                  Inl e \<Rightarrow> ServerError e
                | Inr parsed \<Rightarrow>
                    (let (amenitiesNeeded, specificBrands) = extractAmenities parsed
                     in scoringStage w city preferences amenitiesNeeded specificBrands))
      | _ \<Rightarrow> BadRequest ''City and preferences are required'')"

subsection \<open>The query-first server\<close>

text \<open>Its \<open>getAmenityCoordinates\<close>: one request within 5 km, no brands.\<close>

definition getAmenityCoordinatesSimple :: "maps \<Rightarrow> string \<Rightarrow> string \<Rightarrow> nat \<Rightarrow> place list" where
  "getAmenityCoordinatesSimple m city amenityType limit =
     (case getCityCoordinates m city of
        None \<Rightarrow> []
      | Some cityCoords \<Rightarrow>
          (case placesNearby m \<lparr>center = cityCoords, radius = 5000, keyword = None,
                                placeType = amenityType, pagetoken = None\<rparr> of
             Inl e \<Rightarrow> []
           | Inr response \<Rightarrow>
               map (toPlace amenityType)
                 (take limit (case results response of None \<Rightarrow> [] | Some rs \<Rightarrow> rs))))"

definition getNeighborhoodBoundaries :: "world \<Rightarrow> string \<Rightarrow> string \<Rightarrow> boundary option" where
  "getNeighborhoodBoundaries w hoodName city =
     (case boundarySearch w (hoodName @ '', '' @ city) of
        Inl e \<Rightarrow> None
      | Inr features \<Rightarrow>
          (case features of
             [] \<Rightarrow> None
           | f # _ \<Rightarrow>
               Some \<lparr>boundaryNeighborhood = hoodName,
                     boundaryType = geometryType f,
                     boundaryCoordinates = coordinates f,
                     boundaryCenter =
                       (case bbox f of
                          None \<Rightarrow> None
                        | Some (b0, b1, b2, b3) \<Rightarrow> Some \<lparr>lat = (b1 + b3) / 2, lng = (b0 + b2) / 2\<rparr>)\<rparr>))"

text \<open>The map data of the query-first server, after the analysis has been parsed.\<close>

definition queryFirstMap :: "world \<Rightarrow> string \<Rightarrow> string \<Rightarrow> recommendation list \<Rightarrow> string option \<Rightarrow> response" where
  "queryFirstMap w city preferences recs recSummary =
     (let cityCoords = getCityCoordinates (theMaps w) city
      in case amenityTypesReply (theLlm w) preferences of
           Inl e \<Rightarrow> ServerError e
         | Inr parsed \<Rightarrow>
             (let amenitiesNeeded =
                    (case parsed of None \<Rightarrow> [''gym'', ''grocery_or_supermarket''] | Some ts \<Rightarrow> ts)
              in Ok \<lparr>bodyCity = city,
                     userPreferences = preferences,
                     recommendations = recs,
                     summary = recSummary,
                     mapData = Some
                       \<lparr>cityCoordinates = cityCoords,
                        amenities =
                          foldl (\<lambda>shown amenityType.
                                   AList.update amenityType
                                     (getAmenityCoordinatesSimple (theMaps w) city amenityType 5) shown)
                            [] amenitiesNeeded,
                        mapNeighborhoodAmenities = None,
                        neighborhoods = Some
                          (List.map_filter
                             (\<lambda>rec. getNeighborhoodBoundaries w (recNeighborhood rec) city) recs)\<rparr>\<rparr>))"

text \<open>
  Steps 1 to 3.  \<open>JSON.parse\<close> of the first reply and of the analysis are outside any inner
  \<open>try\<close>, so a reply that does not parse ends in the outer \<open>catch\<close> with status 500.
\<close>

definition queryFirstStages :: "world \<Rightarrow> string \<Rightarrow> string \<Rightarrow> response" where
  "queryFirstStages w city preferences =
     (case parsingReply (theLlm w) city preferences of
        Inl e \<Rightarrow> ServerError e
      | Inr None \<Rightarrow> ServerError SyntaxError
      | Inr (Some parsedData) \<Rightarrow>
          (case scrapeReddit (theReddit w) (redditQueries parsedData) (Some city) None of
             Inl e \<Rightarrow> ServerError e
           | Inr redditPosts \<Rightarrow>
               (case (if length redditPosts > 0
                      then filterRelevantPosts (theLlm w) redditPosts preferences
                      else Inr []) of
                  Inl e \<Rightarrow> ServerError e
                | Inr filteredPosts \<Rightarrow>
                    (let redditData =
                           (if length filteredPosts > 0 then join [CHR 0x0A] filteredPosts
                            else ''Limited Reddit posts found. Using general knowledge about '' @
                                 city @ '' neighborhoods.'')
                     in case analysisReply (theLlm w) city preferences redditData
                               (extractedPreferences parsedData) of
                          Inl e \<Rightarrow> ServerError e
                        | Inr NoJsonFound \<Rightarrow>
                            Ok \<lparr>bodyCity = city,
                                userPreferences = preferences,
                                recommendations =
                                  [\<lparr>recNeighborhood = ''Downtown'',
                                    matchScore = Some (7 / 10),
                                    matchReasons = extractedPreferences parsedData,
                                    concerns = [''Limited Reddit data available''],
                                    amenityBreakdown = None\<rparr>],
                                summary = Some ''Unable to find specific Reddit data. Please verify the city name and try again.'',
                                mapData = None\<rparr>
                        | Inr InvalidJson \<Rightarrow> ServerError SyntaxError
                        | Inr (Analysis recs recSummary) \<Rightarrow>
                            queryFirstMap w city preferences recs recSummary))))"

text \<open>The handler.\<close>

definition recommendationsQueryFirst :: "world \<Rightarrow> request \<Rightarrow> response" where
  "recommendationsQueryFirst w req =
     (case (reqCity req, reqPreferences req) of
        (Some city, Some preferences) \<Rightarrow>
          if city = [] \<or> preferences = []
          then BadRequest ''City and preferences are required''
          else queryFirstStages w city preferences
      | _ \<Rightarrow> BadRequest ''City and preferences are required'')"

section \<open>A sample world\<close>

text \<open>
  The scenario of the specification: the provider knows two gyms, \<open>Gym A\<close> in Downtown and
  \<open>Gym B\<close> in Uptown.  In \<open>swappedMaps\<close> it lists them in the other order.
\<close>

definition sampleMaps :: maps where
  "sampleMaps =
     \<lparr>geocode = (\<lambda>city. Inr [\<lparr>location = \<lparr>lat = 0, lng = 0\<rparr>, address_components = None,
                                formatted_address = city\<rparr>]),
      reverseGeocode = (\<lambda>la lo. Inr [\<lparr>location = \<lparr>lat = la, lng = lo\<rparr>,
          address_components =
            Some [\<lparr>long_name = (if la = 1 then ''Downtown'' else ''Uptown''),
                   types = [''neighborhood'']\<rparr>],
          formatted_address = ''Main St, Springfield''\<rparr>]),
      placesNearby = (\<lambda>p. Inr \<lparr>results = Some [\<lparr>lat = 1, lng = 1, name = ''Gym A''\<rparr>,
                                                 \<lparr>lat = 2, lng = 2, name = ''Gym B''\<rparr>],
                                next_page_token = None\<rparr>)\<rparr>"

definition swappedMaps :: maps where
  "swappedMaps =
     sampleMaps\<lparr>placesNearby := (\<lambda>p. Inr \<lparr>results = Some [\<lparr>lat = 2, lng = 2, name = ''Gym B''\<rparr>,
                                                               \<lparr>lat = 1, lng = 1, name = ''Gym A''\<rparr>],
                                              next_page_token = None\<rparr>)\<rparr>"

text \<open>
  The same two gyms where the provider calls the neighborhood of \<open>Gym A\<close> \<open>constructor\<close>, in
  both orders.
\<close>

definition shadowedMaps :: maps where
  "shadowedMaps =
     sampleMaps\<lparr>reverseGeocode := (\<lambda>la lo. Inr [\<lparr>location = \<lparr>lat = la, lng = lo\<rparr>,
        address_components =
          Some [\<lparr>long_name = (if la = 1 then ''constructor'' else ''Uptown''),
                 types = [''neighborhood'']\<rparr>],
        formatted_address = ''Main St, Springfield''\<rparr>])\<rparr>"

definition shadowedSwapped :: maps where
  "shadowedSwapped = swappedMaps\<lparr>reverseGeocode := reverseGeocode shadowedMaps\<rparr>"

text \<open>What the scorer returns in the sample world when gyms are requested.\<close>

definition downtownAggregate :: scored where
  "downtownAggregate =
     \<lparr>neighborhood = ''Downtown'', amenityScore = 6, amenityCounts = [(''gym'', 1)],
      totalAmenities = 1, amenityTypes = 1\<rparr>"

definition sampleRanked :: score_result where
  "sampleRanked =
     \<lparr>scoredNeighborhoods =
        [downtownAggregate,
         \<lparr>neighborhood = ''Uptown'', amenityScore = 6, amenityCounts = [(''gym'', 1)],
          totalAmenities = 1, amenityTypes = 1\<rparr>],
      neighborhoodAmenities =
        [(''Downtown'', [(''gym'', [\<lparr>lat = 1, lng = 1, name = ''Gym A'', type = ''gym''\<rparr>])]),
         (''Uptown'', [(''gym'', [\<lparr>lat = 2, lng = 2, name = ''Gym B'', type = ''gym''\<rparr>])])]\<rparr>"

definition sampleReddit :: reddit where
  "sampleReddit =
     \<lparr>subredditSearch = (\<lambda>q. Inr (Some [])),
      postSearch = (\<lambda>q. Inr (Some
        [\<lparr>title = Some ''Moving downtown'', selftext = Some ''Downtown is quiet at night.'',
          subreddit = ''springfield''\<rparr>,
         \<lparr>title = Some ''Pizza'', selftext = Some ''Best slice in town?'',
          subreddit = ''springfield''\<rparr>]))\<rparr>"

definition sampleRecommendation :: "string \<Rightarrow> recommendation" where
  "sampleRecommendation hoodName =
     \<lparr>recNeighborhood = hoodName, matchScore = Some (9 / 10), matchReasons = [''quiet''],
      concerns = [], amenityBreakdown = None\<rparr>"

text \<open>
  The model asks for gyms, keeps the first post, and gives no concerns; for the query-first
  server it recommends six neighborhoods.
\<close>

definition sampleLlm :: llm where
  "sampleLlm =
     \<lparr>amenityReply = (\<lambda>p. Inr (Some [\<lparr>requestedType = ''gym'', specificNames = Some []\<rparr>])),
      qualitativeReply = (\<lambda>c p. Inr (Some [''quiet neighborhoods''])),
      filterReply = (\<lambda>p posts. Inr (Some (JArr
        [verdictJson \<lparr>postIndex = 1, isRelevant = True, reason = ''about an area''\<rparr>,
         verdictJson \<lparr>postIndex = 2, isRelevant = False, reason = ''about food''\<rparr>]))),
      scoringReply = (\<lambda>c p ns d. Inr None),
      concernsReply = (\<lambda>c p ns d. Inr None),
      parsingReply = (\<lambda>c p. Inr (Some \<lparr>extractedPreferences = [''quiet''],
                                          redditQueries = [''quiet neighborhoods'']\<rparr>)),
      analysisReply = (\<lambda>c p d prefs. Inr (Analysis
        (map sampleRecommendation [''A'', ''B'', ''C'', ''D'', ''E'', ''F'']) (Some ''Six areas''))),
      amenityTypesReply = (\<lambda>p. Inr (Some [''gym'']))\<rparr>"

definition sampleWorld :: world where
  "sampleWorld =
     \<lparr>theMaps = sampleMaps, theReddit = sampleReddit, theLlm = sampleLlm,
      boundarySearch = (\<lambda>q. Inr [])\<rparr>"

definition sampleRequest :: request where
  "sampleRequest =
     \<lparr>reqCity = Some ''Springfield'', reqPreferences = Some ''close to gyms, quiet area''\<rparr>"

text \<open>The same world with a model that extracts no amenity.\<close>

definition noAmenityWorld :: world where
  "noAmenityWorld = sampleWorld\<lparr>theLlm := sampleLlm\<lparr>amenityReply := (\<lambda>p. Inr (Some []))\<rparr>\<rparr>"

text \<open>The same world with a provider that finds no place.\<close>

definition barrenWorld :: world where
  "barrenWorld =
     sampleWorld\<lparr>theMaps := sampleMaps\<lparr>placesNearby :=
       (\<lambda>p. Inr \<lparr>results = Some [], next_page_token = None\<rparr>)\<rparr>\<rparr>"

text \<open>The same world with a model that answers the relevance prompt with one object.\<close>

definition objectReplyWorld :: world where
  "objectReplyWorld =
     sampleWorld\<lparr>theLlm := sampleLlm\<lparr>filterReply :=
       (\<lambda>p posts. Inr (Some (JObj [(''postIndex'', JNum 1), (''isRelevant'', JBool True)])))\<rparr>\<rparr>"

text \<open>A forum service that finds nothing.\<close>

definition quietReddit :: reddit where
  "quietReddit = \<lparr>subredditSearch = (\<lambda>q. Inr (Some [])), postSearch = (\<lambda>q. Inr (Some []))\<rparr>"

text \<open>
  The posts the sample forum returns for a query, as \<open>scrapeReddit\<close> formats them, and the
  verdicts of the sample model.
\<close>

definition samplePosts :: "string list" where
  "samplePosts =
     [''Title: Moving downtown'' @ [CHR 0x0A] @ ''Content: Downtown is quiet at night.'' @ [CHR 0x0A] @
        ''Subreddit: r/springfield'',
      ''Title: Pizza'' @ [CHR 0x0A] @ ''Content: Best slice in town?'' @ [CHR 0x0A] @
        ''Subreddit: r/springfield'']"

definition sampleVerdicts :: "verdict list" where
  "sampleVerdicts =
     [\<lparr>postIndex = 1, isRelevant = True, reason = ''about an area''\<rparr>,
      \<lparr>postIndex = 2, isRelevant = False, reason = ''about food''\<rparr>]"

text \<open>
  The responses of the two servers to the sample request in the sample world.
\<close>

definition sampleBody :: body where
  "sampleBody =
     \<lparr>bodyCity = ''Springfield'',
      userPreferences = ''close to gyms, quiet area'',
      recommendations =
        [\<lparr>recNeighborhood = ''Downtown'', matchScore = None,
          matchReasons = [''1 amenity nearby'', ''1 types of amenities'', ''Well-reviewed on community forums''],
          concerns = [''Limited number of requested amenities nearby''],
          amenityBreakdown = Some [(''gym'', 1)]\<rparr>,
         \<lparr>recNeighborhood = ''Uptown'', matchScore = None,
          matchReasons = [''1 amenity nearby'', ''1 types of amenities'', ''Well-reviewed on community forums''],
          concerns = [''Limited number of requested amenities nearby''],
          amenityBreakdown = Some [(''gym'', 1)]\<rparr>],
      summary = None,
      mapData = Some
        \<lparr>cityCoordinates = Some \<lparr>lat = 0, lng = 0\<rparr>,
         amenities = [(''gym'', [\<lparr>lat = 1, lng = 1, name = ''Gym A'', type = ''gym''\<rparr>,
                              \<lparr>lat = 2, lng = 2, name = ''Gym B'', type = ''gym''\<rparr>])],
         mapNeighborhoodAmenities = Some
           [(''Downtown'', [(''gym'', [\<lparr>lat = 1, lng = 1, name = ''Gym A'', type = ''gym''\<rparr>])]),
            (''Uptown'', [(''gym'', [\<lparr>lat = 2, lng = 2, name = ''Gym B'', type = ''gym''\<rparr>])])],
         neighborhoods = None\<rparr>\<rparr>"

definition sampleQueryFirstBody :: body where
  "sampleQueryFirstBody =
     \<lparr>bodyCity = ''Springfield'',
      userPreferences = ''close to gyms, quiet area'',
      recommendations = map sampleRecommendation [''A'', ''B'', ''C'', ''D'', ''E'', ''F''],
      summary = Some ''Six areas'',
      mapData = Some
        \<lparr>cityCoordinates = Some \<lparr>lat = 0, lng = 0\<rparr>,
         amenities = [(''gym'', [\<lparr>lat = 1, lng = 1, name = ''Gym A'', type = ''gym''\<rparr>,
                              \<lparr>lat = 2, lng = 2, name = ''Gym B'', type = ''gym''\<rparr>])],
         mapNeighborhoodAmenities = None,
         neighborhoods = Some []\<rparr>\<rparr>"

text \<open>
  A model whose replies to the amenity prompt and to the relevance prompt do not parse.
\<close>

definition unparsableLlm :: llm where
  "unparsableLlm = sampleLlm\<lparr>filterReply := (\<lambda>p posts. Inr None), amenityReply := (\<lambda>p. Inr None)\<rparr>"

definition unparsableWorld :: world where
  "unparsableWorld = sampleWorld\<lparr>theLlm := unparsableLlm\<rparr>"

section \<open>Auxiliary notions for the proofs\<close>

text \<open>
  Three abbreviations used in the proofs: the neighborhood an amenity is counted under (none
  when the resolver returns \<open>null\<close> or the empty string), the counts recorded so far for a
  neighborhood, and the effect of counting one more amenity of a type.
\<close>


definition hood :: "maps \<Rightarrow> place \<Rightarrow> string option" where
  "hood m a =
     (case getNeighborhoodFromCoordinates m (lat a) (lng a) of
        None \<Rightarrow> None
      | Some n \<Rightarrow> if n = [] then None else Some n)"

definition countsOf :: "(nat obj) obj \<Rightarrow> string \<Rightarrow> nat obj" where
  "countsOf scores n = (case map_of scores n of None \<Rightarrow> [] | Some cs \<Rightarrow> cs)"

definition bump :: "string \<Rightarrow> nat obj \<Rightarrow> nat obj" where
  "bump t cs = AList.update t (Suc (case map_of cs t of None \<Rightarrow> 0 | Some c \<Rightarrow> c)) cs"

definition positiveCounts :: "nat obj \<Rightarrow> bool" where
  "positiveCounts cs = (\<forall>c \<in> snd ` set cs. 0 < c)"


text \<open>
  The amenities in the order in which the two nested loops reach them, each with the type
  it was requested under; the effect of counting one of them in \<open>neighborhoodScores\<close>; and the
  number of amenities of a type that fall in a neighborhood.
\<close>

definition located :: "maps \<Rightarrow> string \<Rightarrow> (string list) obj \<Rightarrow> string list \<Rightarrow> (string \<times> place) list" where
  "located m city sb needed =
     concat (map (\<lambda>t. map (Pair t) (getAllAmenityCoordinates m city t (brandNamesFor sb t))) needed)"

definition count1 :: "maps \<Rightarrow> (nat obj) obj \<Rightarrow> string \<times> place \<Rightarrow> (nat obj) obj" where
  "count1 m scores x =
     (let (t, a) = x in
      case hood m a of
        None \<Rightarrow> scores
      | Some n \<Rightarrow> AList.update n (bump t (countsOf scores n)) scores)"

definition cnt :: "maps \<Rightarrow> (string \<times> place) list \<Rightarrow> string \<Rightarrow> string \<Rightarrow> nat" where
  "cnt m items n t = length (filter (\<lambda>x. fst x = t \<and> hood m (snd x) = Some n) items)"

text \<open>The aggregate returned for a neighborhood, if any.\<close>

definition aggregateOf :: "score_result \<Rightarrow> string \<Rightarrow> scored option" where
  "aggregateOf res n = find (\<lambda>r. neighborhood r = n) (scoredNeighborhoods res)"

text \<open>The invariant of the nested loops.\<close>

definition tallied :: "maps \<Rightarrow> (string \<times> place) list \<Rightarrow> (nat obj) obj \<Rightarrow> bool" where
  "tallied m items scores \<longleftrightarrow>
     distinct (map fst scores) \<and>
     (\<forall>n cs. map_of scores n = Some cs \<longrightarrow> distinct (map fst cs)) \<and>
     (\<forall>n. (map_of scores n = None) = (\<forall>t. cnt m items n t = 0)) \<and>
     (\<forall>n cs t. map_of scores n = Some cs \<longrightarrow>
        map_of cs t = (if cnt m items n t = 0 then None else Some (cnt m items n t)))"

text \<open>
  Names that are not inherited from \<open>Object.prototype\<close>, places that resolve to such names
  only, and the invariant of the loops while all places are such: nothing has been left on
  the prototype, and every count has its list of amenities.
\<close>

definition ordinaryName :: "string \<Rightarrow> bool" where
  "ordinaryName n \<longleftrightarrow> n \<notin> set inheritedFunctions \<and> n \<noteq> ''__proto__''"

definition ordinaryPlaces :: "maps \<Rightarrow> place list \<Rightarrow> bool" where
  "ordinaryPlaces m ps = list_all (\<lambda>a. case hood m a of None \<Rightarrow> True | Some n \<Rightarrow> ordinaryName n) ps"

definition synced :: "tally \<Rightarrow> bool" where
  "synced st \<longleftrightarrow>
     (let (scores, listing, proto) = st in
      proto = [] \<and>
      (\<forall>n cs. map_of scores n = Some cs \<longrightarrow>
         (\<exists>ls. map_of listing n = Some ls \<and> (\<forall>t. map_of cs t \<noteq> None \<longrightarrow> map_of ls t \<noteq> None))))"

text \<open>
  Size limits on the sequences of a response: every sequence of a dictionary has at most
  \<open>n\<close> entries, and the same for a dictionary of dictionaries.
\<close>

definition capped :: "nat \<Rightarrow> ('a list) obj \<Rightarrow> bool" where
  "capped n shown = (\<forall>ps \<in> snd ` set shown. length ps \<le> n)"

definition allCapped :: "nat \<Rightarrow> (('a list) obj) obj \<Rightarrow> bool" where
  "allCapped n shown = (\<forall>byType \<in> snd ` set shown. capped n byType)"

text \<open>
  The limits of an amenity-first response.
\<close>

definition withinCaps :: "body \<Rightarrow> bool" where
  "withinCaps b \<longleftrightarrow>
     length (recommendations b) \<le> 5 \<and>
     (\<exists>md sub. mapData b = Some md \<and> capped 10 (amenities md) \<and>
        mapNeighborhoodAmenities md = Some sub \<and> allCapped 5 sub)"

section \<open>Properties of the scorer\<close>

text \<open>The sample world, evaluated.\<close>

lemma sample_located:
  "getAllAmenityCoordinates sampleMaps ''Springfield'' ''gym'' [] =
     [\<lparr>lat = 1, lng = 1, name = ''Gym A'', type = ''gym''\<rparr>,
      \<lparr>lat = 2, lng = 2, name = ''Gym B'', type = ''gym''\<rparr>]"
  by (simp add: getAllAmenityCoordinates_def getCityCoordinates_def sampleMaps_def toPlace_def
        eval_nat_numeral)

lemma swapped_located:
  "getAllAmenityCoordinates swappedMaps ''Springfield'' ''gym'' [] =
     [\<lparr>lat = 2, lng = 2, name = ''Gym B'', type = ''gym''\<rparr>,
      \<lparr>lat = 1, lng = 1, name = ''Gym A'', type = ''gym''\<rparr>]"
  by (simp add: getAllAmenityCoordinates_def getCityCoordinates_def sampleMaps_def swappedMaps_def
        toPlace_def eval_nat_numeral)

lemma sample_hood:
  "getNeighborhoodFromCoordinates sampleMaps la lo = Some (if la = 1 then ''Downtown'' else ''Uptown'')"
  by (simp add: getNeighborhoodFromCoordinates_def sampleMaps_def)

lemma swapped_hood:
  "getNeighborhoodFromCoordinates swappedMaps la lo = Some (if la = 1 then ''Downtown'' else ''Uptown'')"
  by (simp add: getNeighborhoodFromCoordinates_def sampleMaps_def swappedMaps_def)

lemma sample_scored:
  "scoreNeighborhoodsByAmenities sampleMaps ''Springfield'' [''gym''] [] = sampleRanked"
  by (simp add: scoreNeighborhoodsByAmenities_def tallyType_def brandNamesFor_def sample_located
        attribute_def countOwn_def resolves_def inheritedFunctions_def sample_hood sortByScore_def scoreEntry_def sampleRanked_def downtownAggregate_def Let_def)

lemma swapped_scored:
  "scoredNeighborhoods (scoreNeighborhoodsByAmenities swappedMaps ''Springfield'' [''gym''] []) =
        [\<lparr>neighborhood = ''Uptown'', amenityScore = 6, amenityCounts = [(''gym'', 1)],
          totalAmenities = 1, amenityTypes = 1\<rparr>,
         \<lparr>neighborhood = ''Downtown'', amenityScore = 6, amenityCounts = [(''gym'', 1)],
          totalAmenities = 1, amenityTypes = 1\<rparr>]"
  by (simp add: scoreNeighborhoodsByAmenities_def tallyType_def brandNamesFor_def swapped_located
        attribute_def countOwn_def resolves_def inheritedFunctions_def swapped_hood sortByScore_def scoreEntry_def Let_def)

lemma set_update_subset: "set (AList.update k v al) \<subseteq> insert (k, v) (set al)"
  by (induction al) auto



lemma positiveCounts_bump: "positiveCounts cs \<Longrightarrow> positiveCounts (bump t cs)"
  unfolding positiveCounts_def bump_def
  using set_update_subset[of t "Suc (case map_of cs t of None \<Rightarrow> 0 | Some c \<Rightarrow> c)" cs]
  by fastforce








lemma foldl_plus_sum_list: "foldl (\<lambda>a b. a + b) (s::nat) xs = s + sum_list xs"
  by (induction xs arbitrary: s) auto




lemma countOwn_synced:
  assumes sync: "synced (scores, listing, [])" and own: "map_of scores n = Some cs"
  shows "\<exists>listing'. countOwn n t a (scores, listing, []) =
            ((AList.update n (bump t cs) scores, listing', []), None) \<and>
          synced (AList.update n (bump t cs) scores, listing', [])"
proof -
  have rest: "\<And>n' cs'. map_of scores n' = Some cs' \<Longrightarrow>
      \<exists>ls'. map_of listing n' = Some ls' \<and> (\<forall>t. map_of cs' t \<noteq> None \<longrightarrow> map_of ls' t \<noteq> None)"
    using sync by (simp add: synced_def)
  from rest[OF own] obtain ls where ls: "map_of listing n = Some ls"
    and keys: "\<And>t. map_of cs t \<noteq> None \<Longrightarrow> map_of ls t \<noteq> None"
    by blast
  show ?thesis
  proof (cases "case map_of cs t of None \<Rightarrow> True | Some c \<Rightarrow> c = 0")
    case True
    let ?ls = "AList.update t [a] (AList.update t [] ls)"
    have run: "countOwn n t a (scores, listing, []) =
          ((AList.update n (bump t cs) scores, AList.update n ?ls listing, []), None)"
      using True own ls by (auto simp: countOwn_def bump_def Let_def update_conv' split: option.splits)
    have "synced (AList.update n (bump t cs) scores, AList.update n ?ls listing, [])"
      unfolding synced_def using rest keys
      by (auto simp: update_conv' bump_def split: if_splits)
    with run show ?thesis by blast
  next
    case False
    then obtain c where c: "map_of cs t = Some c" "c \<noteq> 0" by (auto split: option.splits)
    then obtain ps where ps: "map_of ls t = Some ps" using keys[of t] by auto
    let ?ls = "AList.update t (ps @ [a]) ls"
    have run: "countOwn n t a (scores, listing, []) =
          ((AList.update n (bump t cs) scores, AList.update n ?ls listing, []), None)"
      using c own ls ps by (simp add: countOwn_def bump_def Let_def)
    have "synced (AList.update n (bump t cs) scores, AList.update n ?ls listing, [])"
      unfolding synced_def using rest keys
      by (auto simp: update_conv' bump_def split: if_splits)
    with run show ?thesis by blast
  qed
qed

lemma synced_fresh:
  assumes "synced (scores, listing, [])"
  shows "synced (AList.update n [] scores, AList.update n [] listing, [])"
  using assms unfolding synced_def by (auto simp: update_conv')

lemma attribute_ordinary:
  assumes sync: "synced (scores, listing, [])"
    and ord: "case hood m a of None \<Rightarrow> True | Some n \<Rightarrow> ordinaryName n"
  shows "\<exists>listing'. attribute m t (scores, listing, []) a =
            ((count1 m scores (t, a), listing', []), None) \<and>
          synced (count1 m scores (t, a), listing', [])"
proof (cases "hood m a")
  case None
  then have "attribute m t (scores, listing, []) a = ((scores, listing, []), None)"
    by (auto simp: attribute_def hood_def split: option.splits if_splits)
  then show ?thesis using None sync by (simp add: count1_def)
next
  case (Some n)
  then have res: "getNeighborhoodFromCoordinates m (lat a) (lng a) = Some n" and ne: "n \<noteq> []"
    by (auto simp: hood_def split: option.splits if_splits)
  have on: "ordinaryName n" using ord Some by simp
  show ?thesis
  proof (cases "map_of scores n")
    case None
    have nf: "resolves scores [] n = NotFound"
      using None on by (simp add: resolves_def ordinaryName_def)
    have own': "map_of (AList.update n [] scores) n = Some []" by (simp add: update_conv')
    from countOwn_synced[OF synced_fresh[OF sync, of n] own', of t a]
    obtain listing' where
      run: "countOwn n t a (AList.update n [] scores, AList.update n [] listing, []) =
              ((AList.update n (bump t []) (AList.update n [] scores), listing', []), None)"
      and s: "synced (AList.update n (bump t []) (AList.update n [] scores), listing', [])"
      by blast
    have "count1 m scores (t, a) = AList.update n (bump t []) (AList.update n [] scores)"
      using Some None by (simp add: count1_def countsOf_def)
    then show ?thesis using run s res ne nf by (auto simp: attribute_def)
  next
    case (Some cs)
    have op: "resolves scores [] n = OwnProperty"
      using Some by (simp add: resolves_def)
    from countOwn_synced[OF sync Some, of t a]
    obtain listing' where
      run: "countOwn n t a (scores, listing, []) = ((AList.update n (bump t cs) scores, listing', []), None)"
      and s: "synced (AList.update n (bump t cs) scores, listing', [])"
      by blast
    have "count1 m scores (t, a) = AList.update n (bump t cs) scores"
      using \<open>hood m a = Some n\<close> Some by (simp add: count1_def countsOf_def)
    then show ?thesis using run s res ne op by (auto simp: attribute_def)
  qed
qed

lemma tallyPlaces_ordinary:
  assumes "synced (scores, listing, [])" and "ordinaryPlaces m ps"
  shows "\<exists>listing'. tallyPlaces m t (scores, listing, []) ps =
            (foldl (count1 m) scores (map (Pair t) ps), listing', []) \<and>
          synced (foldl (count1 m) scores (map (Pair t) ps), listing', [])"
  using assms
proof (induction ps arbitrary: scores listing)
  case Nil
  then show ?case by simp
next
  case (Cons a ps)
  from Cons.prems(2) have ord: "case hood m a of None \<Rightarrow> True | Some n \<Rightarrow> ordinaryName n"
    and rest: "ordinaryPlaces m ps"
    by (simp_all add: ordinaryPlaces_def)
  from attribute_ordinary[OF Cons.prems(1) ord, of t]
  obtain listing1 where step: "attribute m t (scores, listing, []) a =
            ((count1 m scores (t, a), listing1, []), None)"
    and s: "synced (count1 m scores (t, a), listing1, [])"
    by blast
  from Cons.IH[OF s rest] show ?case using step by simp
qed

lemma foldl_tallyType_ordinary:
  assumes "synced (scores, listing, [])"
    and "\<forall>t \<in> set needed. ordinaryPlaces m (getAllAmenityCoordinates m city t (brandNamesFor sb t))"
  shows "\<exists>listing'. foldl (tallyType m city sb) (scores, listing, []) needed =
            (foldl (count1 m) scores (located m city sb needed), listing', []) \<and>
          synced (foldl (count1 m) scores (located m city sb needed), listing', [])"
  using assms
proof (induction needed arbitrary: scores listing)
  case Nil
  then show ?case by (simp add: located_def)
next
  case (Cons t needed)
  from Cons.prems(2)
  have here: "ordinaryPlaces m (getAllAmenityCoordinates m city t (brandNamesFor sb t))"
    and rest: "\<forall>t \<in> set needed. ordinaryPlaces m (getAllAmenityCoordinates m city t (brandNamesFor sb t))"
    by simp_all
  from tallyPlaces_ordinary[OF Cons.prems(1) here, of t]
  obtain listing1 where
    step: "tallyType m city sb (scores, listing, []) t =
             (foldl (count1 m) scores (map (Pair t) (getAllAmenityCoordinates m city t (brandNamesFor sb t))),
              listing1, [])"
    and s: "synced (foldl (count1 m) scores
                     (map (Pair t) (getAllAmenityCoordinates m city t (brandNamesFor sb t))), listing1, [])"
    unfolding tallyType_def by blast
  from Cons.IH[OF s rest] show ?case using step by (simp add: located_def)
qed

lemma scores_ordinary:
  assumes "\<forall>t \<in> set needed. ordinaryPlaces m (getAllAmenityCoordinates m city t (brandNamesFor sb t))"
  shows "fst (foldl (tallyType m city sb) ([], [], []) needed) = foldl (count1 m) [] (located m city sb needed)"
proof -
  have "synced ([], [], [])" by (simp add: synced_def)
  from foldl_tallyType_ordinary[OF this assms] show ?thesis by auto
qed

lemma cnt_mset: "mset items = mset items' \<Longrightarrow> cnt m items n t = cnt m items' n t"
proof -
  assume "mset items = mset items'"
  then have "mset (filter (\<lambda>x. fst x = t \<and> hood m (snd x) = Some n) items) =
             mset (filter (\<lambda>x. fst x = t \<and> hood m (snd x) = Some n) items')"
    by simp
  then show ?thesis unfolding cnt_def by (rule mset_eq_length)
qed

lemma cnt_snoc:
  "cnt m (items @ [x]) n t = cnt m items n t + (if fst x = t \<and> hood m (snd x) = Some n then 1 else 0)"
  by (simp add: cnt_def)

lemma tallied_Nil: "tallied m [] []"
  by (simp add: tallied_def cnt_def)

lemma tallied_keys: "tallied m items scores \<Longrightarrow> distinct (map fst scores)"
  unfolding tallied_def by blast

lemma tallied_types:
  "tallied m items scores \<Longrightarrow> map_of scores n = Some cs \<Longrightarrow> distinct (map fst cs)"
  unfolding tallied_def by blast

lemma tallied_absent:
  "tallied m items scores \<Longrightarrow> (map_of scores n = None) = (\<forall>t. cnt m items n t = 0)"
  unfolding tallied_def by blast

lemma tallied_count:
  "tallied m items scores \<Longrightarrow> map_of scores n = Some cs \<Longrightarrow>
   map_of cs t = (if cnt m items n t = 0 then None else Some (cnt m items n t))"
  unfolding tallied_def by blast

lemma map_of_bump:
  "map_of (bump t cs) t' = (if t' = t then Some (Suc (case map_of cs t of None \<Rightarrow> 0 | Some c \<Rightarrow> c)) else map_of cs t')"
  by (simp add: bump_def update_conv')

lemma distinct_bump: "distinct (map fst cs) \<Longrightarrow> distinct (map fst (bump t cs))"
  by (simp add: bump_def distinct_update)

lemma count1_None: "hood m a = None \<Longrightarrow> count1 m scores (t, a) = scores"
  by (simp add: count1_def)

lemma count1_Some:
  "hood m a = Some n \<Longrightarrow> count1 m scores (t, a) = AList.update n (bump t (countsOf scores n)) scores"
  by (simp add: count1_def)

lemma tallied_step:
  assumes inv: "tallied m items scores"
  shows "tallied m (items @ [(t0, a)]) (count1 m scores (t0, a))"
proof (cases "hood m a")
  case None
  then have "cnt m (items @ [(t0, a)]) n t = cnt m items n t" for n t
    by (simp add: cnt_snoc)
  then show ?thesis using inv by (simp add: tallied_def count1_None[OF None])
next
  case (Some n0)
  let ?cs0 = "countsOf scores n0"
  let ?scores = "count1 m scores (t0, a)"
  let ?items = "items @ [(t0, a)]"
  have d0: "distinct (map fst ?cs0)"
    using tallied_types[OF inv, of n0] by (cases "map_of scores n0") (simp_all add: countsOf_def)
  have m0: "map_of ?cs0 t = (if cnt m items n0 t = 0 then None else Some (cnt m items n0 t))" for t
  proof (cases "map_of scores n0")
    case None
    then show ?thesis using tallied_absent[OF inv, of n0] by (simp add: countsOf_def)
  next
    case (Some cs)
    then show ?thesis using tallied_count[OF inv Some, of t] by (simp add: countsOf_def)
  qed
  have look: "map_of ?scores n = (if n = n0 then Some (bump t0 ?cs0) else map_of scores n)" for n
    by (simp add: count1_Some[OF Some] update_conv')
  have c: "cnt m ?items n t = cnt m items n t + (if t0 = t \<and> n = n0 then 1 else 0)" for n t
    using Some by (auto simp: cnt_snoc)
  have 1: "distinct (map fst ?scores)"
    using tallied_keys[OF inv] by (simp add: count1_Some[OF Some] distinct_update)
  have 2: "distinct (map fst cs)" if "map_of ?scores n = Some cs" for n cs
    using that tallied_types[OF inv, of n cs] d0 by (auto simp: look distinct_bump split: if_splits)
  have 3: "(map_of ?scores n = None) = (\<forall>t. cnt m ?items n t = 0)" for n
  proof (cases "n = n0")
    case True
    have "cnt m ?items n0 t0 \<noteq> 0" by (simp add: c)
    then show ?thesis using True by (auto simp: look)
  next
    case False
    then show ?thesis using tallied_absent[OF inv, of n] by (simp add: look c)
  qed
  have 4: "map_of cs t = (if cnt m ?items n t = 0 then None else Some (cnt m ?items n t))"
    if a: "map_of ?scores n = Some cs" for n cs t
  proof (cases "n = n0")
    case True
    then have "cs = bump t0 ?cs0" using a by (simp add: look)
    then show ?thesis using True by (simp add: map_of_bump m0 c)
  next
    case False
    then have "map_of scores n = Some cs" using a by (simp add: look)
    then show ?thesis using tallied_count[OF inv, of n cs t] False by (simp add: c)
  qed
  show ?thesis unfolding tallied_def using 1 2 3 4 by blast
qed

lemma tallied_foldl: "tallied m items (foldl (count1 m) [] items)"
proof (induction items rule: rev_induct)
  case Nil
  show ?case by (simp add: tallied_Nil)
next
  case (snoc x items)
  obtain t a where "x = (t, a)" by (cases x)
  then show ?case using tallied_step[OF snoc, of t a] by simp
qed


lemma find_unique:
  "distinct (map key xs) \<Longrightarrow> x \<in> set xs \<Longrightarrow> find (\<lambda>y. key y = key x) xs = Some x"
  by (induction xs) (auto simp: rev_image_eqI)

lemma neighborhood_scoreEntry: "neighborhood (scoreEntry e) = fst e"
  by (cases e) (simp add: scoreEntry_def Let_def)

lemma find_sortByScore:
  assumes d: "distinct (map fst scores)"
  shows "find (\<lambda>r. neighborhood r = n) (sortByScore (map scoreEntry scores)) =
           map_option (\<lambda>cs. scoreEntry (n, cs)) (map_of scores n)"
proof -
  let ?ys = "sortByScore (map scoreEntry scores)"
  have set_ys: "set ?ys = scoreEntry ` set scores" by (simp add: sortByScore_def)
  have "mset (map neighborhood ?ys) = mset (map fst scores)"
    by (simp add: sortByScore_def neighborhood_scoreEntry image_mset.compositionality comp_def)
  then have "distinct (map neighborhood ?ys) = distinct (map fst scores)"
    by (rule mset_eq_imp_distinct_iff)
  then have d_ys: "distinct (map neighborhood ?ys)"
    using d by simp
  show ?thesis
  proof (cases "map_of scores n")
    case None
    then have "n \<notin> fst ` set scores" by (simp add: map_of_eq_None_iff)
    then have "\<not> (\<exists>r. r \<in> set ?ys \<and> neighborhood r = n)"
      unfolding set_ys by (auto simp: neighborhood_scoreEntry)
    then show ?thesis using None by (simp add: find_None_iff)
  next
    case (Some cs)
    then have "(n, cs) \<in> set scores" by (rule map_of_SomeD)
    then have "scoreEntry (n, cs) \<in> set ?ys" unfolding set_ys by blast
    from find_unique[OF d_ys this] show ?thesis using Some by (simp add: neighborhood_scoreEntry)
  qed
qed

lemma aggregateOf_score:
  assumes "\<forall>t \<in> set needed. ordinaryPlaces m (getAllAmenityCoordinates m city t (brandNamesFor sb t))"
  shows "aggregateOf (scoreNeighborhoodsByAmenities m city needed sb) n =
     map_option (\<lambda>cs. scoreEntry (n, cs)) (map_of (foldl (count1 m) [] (located m city sb needed)) n)"
proof -
  obtain scores listing proto where
    st: "foldl (tallyType m city sb) ([], [], []) needed = (scores, listing, proto)"
    by (cases "foldl (tallyType m city sb) ([], [], []) needed") auto
  have scores: "scores = foldl (count1 m) [] (located m city sb needed)"
    using scores_ordinary[OF assms] st by simp
  have "distinct (map fst scores)"
    unfolding scores by (rule tallied_keys[OF tallied_foldl])
  then show ?thesis
    by (simp add: aggregateOf_def scoreNeighborhoodsByAmenities_def st find_sortByScore flip: scores)
qed

lemma same_counts:
  fixes cs1 cs2 :: "nat obj"
  assumes d1: "distinct (map fst cs1)" and d2: "distinct (map fst cs2)"
    and eq: "map_of cs1 = map_of cs2"
  shows "sum_list (map snd cs1) = sum_list (map snd cs2) \<and> length cs1 = length cs2"
proof -
  have "set cs1 = set cs2" using map_of_inject_set[OF d1 d2] eq by blast
  moreover have "distinct cs1" "distinct cs2" using d1 d2 by (auto simp: distinct_map)
  ultimately have ms: "mset cs1 = mset cs2" by (simp only: set_eq_iff_mset_eq_distinct)
  have l: "length cs1 = length cs2" using ms by (rule mset_eq_length)
  have m: "mset (map snd cs1) = mset (map snd cs2)" using ms by simp
  have "sum_list (map snd cs1) = sum_mset (mset (map snd cs1))" by (simp only: sum_mset_sum_list)
  also have "\<dots> = sum_list (map snd cs2)" unfolding m by (simp only: sum_mset_sum_list)
  finally show ?thesis using l by simp
qed

lemma located_mset:
  assumes "mset needed' = mset needed"
    and "\<forall>t \<in> set needed. mset (getAllAmenityCoordinates m' city t (brandNamesFor sb t)) =
                          mset (getAllAmenityCoordinates m city t (brandNamesFor sb t))"
  shows "mset (located m' city sb needed') = mset (located m city sb needed)"
proof -
  let ?g = "\<lambda>m t. mset (map (Pair t) (getAllAmenityCoordinates m city t (brandNamesFor sb t)))"
  have "mset (located m' city sb needed') = sum_mset (image_mset (?g m') (mset needed'))"
    by (simp add: located_def mset_concat comp_def flip: sum_mset_sum_list)
  also have "\<dots> = sum_mset (image_mset (?g m) (mset needed))"
  proof -
    have "image_mset (?g m') (mset needed) = image_mset (?g m) (mset needed)"
    proof (rule image_mset_cong)
      fix t
      assume "t \<in># mset needed"
      then have "t \<in> set needed" by simp
      with assms(2) show "?g m' t = ?g m t" by simp
    qed
    then show ?thesis by (simp only: assms(1))
  qed
  also have "\<dots> = mset (located m city sb needed)"
    by (simp add: located_def mset_concat comp_def flip: sum_mset_sum_list)
  finally show ?thesis .
qed

text \<open>
  Claim C5.  Present the located places of every requested type in any other order (and the
  requested types themselves in any other order), with the same assignment of places to
  neighborhoods: every neighborhood then gets the same \<open>amenityCounts\<close> (as a mapping from
  type to count), \<open>totalAmenities\<close>, \<open>amenityTypes\<close> and \<open>amenityScore\<close>, and a neighborhood
  absent from one result is absent from the other.
\<close>

text \<open>
  While every located place resolves to a name that is not inherited, the aggregates do not
  depend on the order of the places or of the requested types: each neighborhood gets the
  same \<open>amenityCounts\<close> (as a mapping from type to count), \<open>totalAmenities\<close>, \<open>amenityTypes\<close>
  and \<open>amenityScore\<close>, and a neighborhood absent from one result is absent from the other.
\<close>

lemma order_independence_ordinary_names:
  assumes needed: "mset needed' = mset needed"
    and places: "\<forall>t \<in> set needed. mset (getAllAmenityCoordinates m' city t (brandNamesFor sb t)) =
                          mset (getAllAmenityCoordinates m city t (brandNamesFor sb t))"
    and resolver: "reverseGeocode m' = reverseGeocode m"
    and ordinary: "\<forall>t \<in> set needed. ordinaryPlaces m (getAllAmenityCoordinates m city t (brandNamesFor sb t))"
  shows "rel_option
           (\<lambda>r' r. map_of (amenityCounts r') = map_of (amenityCounts r) \<and>
                   totalAmenities r' = totalAmenities r \<and>
                   amenityTypes r' = amenityTypes r \<and>
                   amenityScore r' = amenityScore r)
           (aggregateOf (scoreNeighborhoodsByAmenities m' city needed' sb) n)
           (aggregateOf (scoreNeighborhoodsByAmenities m city needed sb) n)"
proof -
  let ?items' = "located m' city sb needed'" and ?items = "located m city sb needed"
  let ?s' = "foldl (count1 m') [] ?items'" and ?s = "foldl (count1 m) [] ?items"
  have hood: "hood m' = hood m"
    using resolver by (auto simp: hood_def getNeighborhoodFromCoordinates_def fun_eq_iff)
  have same_set: "set needed' = set needed" using needed by (rule mset_eq_setD)
  have ordinary': "\<forall>t \<in> set needed'. ordinaryPlaces m' (getAllAmenityCoordinates m' city t (brandNamesFor sb t))"
  proof
    fix t
    assume "t \<in> set needed'"
    then have t: "t \<in> set needed" using same_set by simp
    then have "set (getAllAmenityCoordinates m' city t (brandNamesFor sb t)) =
               set (getAllAmenityCoordinates m city t (brandNamesFor sb t))"
      using places by (auto dest: mset_eq_setD)
    then show "ordinaryPlaces m' (getAllAmenityCoordinates m' city t (brandNamesFor sb t))"
      using ordinary t by (simp add: ordinaryPlaces_def list_all_iff hood)
  qed
  have c: "cnt m' ?items' k t = cnt m ?items k t" for k t
    using cnt_mset[OF located_mset[OF needed places], of m k t] by (simp add: cnt_def hood)
  have inv': "tallied m' ?items' ?s'" and inv: "tallied m ?items ?s"
    by (rule tallied_foldl)+
  show ?thesis
  proof (cases "map_of ?s n")
    case None
    then have "map_of ?s' n = None"
      using tallied_absent[OF inv, of n] tallied_absent[OF inv', of n] by (simp add: c)
    then show ?thesis using None by (simp add: aggregateOf_score[OF ordinary] aggregateOf_score[OF ordinary'])
  next
    case (Some cs)
    then have "map_of ?s' n \<noteq> None"
      using tallied_absent[OF inv, of n] tallied_absent[OF inv', of n] by (simp add: c)
    then obtain cs' where Some': "map_of ?s' n = Some cs'" by blast
    have "map_of cs' = map_of cs"
    proof
      fix t
      show "map_of cs' t = map_of cs t"
        by (simp only: tallied_count[OF inv Some, of t] tallied_count[OF inv' Some', of t] c)
    qed
    moreover from same_counts[OF tallied_types[OF inv' Some'] tallied_types[OF inv Some] this]
    have "sum_list (map snd cs') = sum_list (map snd cs)" "length cs' = length cs" by simp_all
    ultimately show ?thesis
      using Some Some'
      by (simp add: aggregateOf_score[OF ordinary] aggregateOf_score[OF ordinary'] scoreEntry_def Let_def
            foldl_plus_sum_list)
  qed
qed

text \<open>The sample world and the world with the two gyms listed in the other order are such.\<close>

lemma order_independence_sample:
  "rel_option
     (\<lambda>r' r. map_of (amenityCounts r') = map_of (amenityCounts r) \<and>
             totalAmenities r' = totalAmenities r \<and>
             amenityTypes r' = amenityTypes r \<and>
             amenityScore r' = amenityScore r)
     (aggregateOf (scoreNeighborhoodsByAmenities swappedMaps ''Springfield'' [''gym''] []) ''Downtown'')
     (aggregateOf (scoreNeighborhoodsByAmenities sampleMaps ''Springfield'' [''gym''] []) ''Downtown'')"
proof -
  have places: "\<forall>t \<in> set [''gym'']. mset (getAllAmenityCoordinates swappedMaps ''Springfield'' t (brandNamesFor [] t)) =
                         mset (getAllAmenityCoordinates sampleMaps ''Springfield'' t (brandNamesFor [] t))"
    by (simp add: brandNamesFor_def sample_located swapped_located)
  have resolver: "reverseGeocode swappedMaps = reverseGeocode sampleMaps"
    by (simp add: swappedMaps_def)
  have ordinary: "\<forall>t \<in> set [''gym'']. ordinaryPlaces sampleMaps
                    (getAllAmenityCoordinates sampleMaps ''Springfield'' t (brandNamesFor [] t))"
    by (simp add: brandNamesFor_def sample_located ordinaryPlaces_def hood_def sample_hood
          ordinaryName_def inheritedFunctions_def)
  from order_independence_ordinary_names[OF refl places resolver ordinary, of "''Downtown''"]
  show ?thesis .
qed

lemma shadowed_located:
  "getAllAmenityCoordinates shadowedMaps ''Springfield'' ''gym'' [] =
     [\<lparr>lat = 1, lng = 1, name = ''Gym A'', type = ''gym''\<rparr>,
      \<lparr>lat = 2, lng = 2, name = ''Gym B'', type = ''gym''\<rparr>]"
  "getAllAmenityCoordinates shadowedSwapped ''Springfield'' ''gym'' [] =
     [\<lparr>lat = 2, lng = 2, name = ''Gym B'', type = ''gym''\<rparr>,
      \<lparr>lat = 1, lng = 1, name = ''Gym A'', type = ''gym''\<rparr>]"
  by (simp_all add: getAllAmenityCoordinates_def getCityCoordinates_def sampleMaps_def swappedMaps_def
        shadowedMaps_def shadowedSwapped_def toPlace_def eval_nat_numeral)

lemma shadowed_hood:
  "getNeighborhoodFromCoordinates shadowedMaps la lo = Some (if la = 1 then ''constructor'' else ''Uptown'')"
  "getNeighborhoodFromCoordinates shadowedSwapped la lo = Some (if la = 1 then ''constructor'' else ''Uptown'')"
  by (simp_all add: getNeighborhoodFromCoordinates_def shadowedMaps_def shadowedSwapped_def)

text \<open>
  Claim C5.  It asks that every permutation of the located places gives every neighborhood
  the same \<open>amenityCounts\<close>, \<open>totalAmenities\<close>, \<open>amenityTypes\<close> and \<open>amenityScore\<close>.  The scorer
  breaks this when the provider returns a neighborhood name that \<open>{}\<close> inherits.  With
  \<open>Gym A\<close> in \<open>constructor\<close> and \<open>Gym B\<close> in \<open>Uptown\<close>: when \<open>Gym A\<close> comes first its iteration
  throws, the loop over the gyms ends and no neighborhood is returned; when it comes last,
  \<open>Uptown\<close> has been counted and is returned with score 6.
\<close>

theorem inherited_name_order_dependence:
  "mset (getAllAmenityCoordinates shadowedSwapped ''Springfield'' ''gym'' (brandNamesFor [] ''gym'')) =
     mset (getAllAmenityCoordinates shadowedMaps ''Springfield'' ''gym'' (brandNamesFor [] ''gym'')) \<and>
   reverseGeocode shadowedSwapped = reverseGeocode shadowedMaps \<and>
   scoredNeighborhoods (scoreNeighborhoodsByAmenities shadowedMaps ''Springfield'' [''gym''] []) = [] \<and>
   aggregateOf (scoreNeighborhoodsByAmenities shadowedMaps ''Springfield'' [''gym''] []) ''Uptown'' = None \<and>
   aggregateOf (scoreNeighborhoodsByAmenities shadowedSwapped ''Springfield'' [''gym''] []) ''Uptown'' =
     Some \<lparr>neighborhood = ''Uptown'', amenityScore = 6, amenityCounts = [(''gym'', 1)],
           totalAmenities = 1, amenityTypes = 1\<rparr>"
proof -
  have 1: "scoredNeighborhoods (scoreNeighborhoodsByAmenities shadowedMaps ''Springfield'' [''gym''] []) = []"
    by (simp add: scoreNeighborhoodsByAmenities_def tallyType_def brandNamesFor_def shadowed_located
          attribute_def countOwn_def resolves_def inheritedFunctions_def shadowed_hood sortByScore_def)
  have 2: "scoredNeighborhoods (scoreNeighborhoodsByAmenities shadowedSwapped ''Springfield'' [''gym''] []) =
             [\<lparr>neighborhood = ''Uptown'', amenityScore = 6, amenityCounts = [(''gym'', 1)],
               totalAmenities = 1, amenityTypes = 1\<rparr>]"
    by (simp add: scoreNeighborhoodsByAmenities_def tallyType_def brandNamesFor_def shadowed_located
          attribute_def countOwn_def resolves_def inheritedFunctions_def shadowed_hood sortByScore_def
          scoreEntry_def Let_def)
  have 3: "reverseGeocode shadowedSwapped = reverseGeocode shadowedMaps"
    by (simp add: shadowedSwapped_def)
  show ?thesis
    by (simp add: 1 2 3 aggregateOf_def brandNamesFor_def shadowed_located)
qed

section \<open>Properties of the relevance filter\<close>

lemma filterIndexed_total:
  "filterIndexed (\<lambda>i. Inr (q i)) k xs =
     Inr (map fst (filter (\<lambda>p. q (snd p)) (zip xs [k..<k + length xs])))"
proof (induction xs arbitrary: k)
  case Nil
  show ?case by simp
next
  case (Cons x xs)
  have "[k..<k + length (x # xs)] = k # [Suc k..<Suc k + length xs]"
    using upt_conv_Cons[of k "k + length (x # xs)"] by simp
  then show ?case using Cons[of "Suc k"] by simp
qed

lemma filterIndexed_nths:
  "filterIndexed (\<lambda>i. Inr (q i)) 0 xs = Inr (nths xs {i. q i})"
  by (simp add: filterIndexed_total nths_def)

lemma matchesIndex_verdict:
  "matchesIndex i (verdictJson v) = Inr (postIndex v = int i + 1)"
  by (simp add: matchesIndex_def verdictJson_def) linarith

lemma findFirst_verdicts:
  "findFirst (matchesIndex i) (map verdictJson vs) =
     Inr (map_option verdictJson (find (\<lambda>v. postIndex v = int i + 1) vs))"
  by (induction vs) (simp_all add: matchesIndex_verdict)

lemma keepsPost_verdicts:
  "keepsPost (JArr (map verdictJson vs)) i =
     Inr (\<exists>v. find (\<lambda>v. postIndex v = int i + 1) vs = Some v \<and> isRelevant v)"
  by (cases "find (\<lambda>v. postIndex v = int i + 1) vs")
     (simp_all add: keepsPost_def findFirst_verdicts verdictJson_def)

lemma keepsPost_not_array: "(\<forall>xs. j \<noteq> JArr xs) \<Longrightarrow> keepsPost j i = Inl TypeError"
  by (cases j) (simp_all add: keepsPost_def)

lemma filter_not_array:
  "filterReply l preferences posts = Inr (Some j) \<Longrightarrow> (\<forall>xs. j \<noteq> JArr xs) \<Longrightarrow> posts \<noteq> [] \<Longrightarrow>
   filterRelevantPosts l posts preferences = Inl TypeError"
  by (cases posts) (simp_all add: filterRelevantPosts_def keepsPost_not_array)

lemma sample_filter_reply:
  "filterReply sampleLlm p posts = Inr (Some (JArr (map verdictJson sampleVerdicts)))"
  by (simp add: sampleLlm_def sampleVerdicts_def)

text \<open>
  Claim C2.  When the reply to the relevance prompt does not parse (\<open>JSON.parse\<close> throws on
  the text left after the code fences are stripped), \<open>filterRelevantPosts\<close> returns the posts
  it was given: the same list, hence the same length, elements and order.
\<close>

theorem filter_fail_open:
  "filterReply l preferences posts = Inr None \<Longrightarrow> filterRelevantPosts l posts preferences = Inr posts"
  by (simp add: filterRelevantPosts_def)

theorem filter_fail_open_witness:
  "filterReply unparsableLlm ''quiet area'' samplePosts = Inr None \<and>
   filterRelevantPosts unparsableLlm samplePosts ''quiet area'' = Inr samplePosts"
proof -
  have h: "filterReply unparsableLlm ''quiet area'' samplePosts = Inr None"
    by (simp add: unparsableLlm_def)
  from filter_fail_open[OF h] h show ?thesis by simp
qed

text \<open>
  Claim C6.  When the reply parses to an array of verdicts, \<open>filterRelevantPosts\<close> returns
  exactly the posts at the positions \<open>i\<close> (counted from 0) for which the first verdict with
  \<open>postIndex = i + 1\<close> exists and has \<open>isRelevant = true\<close>, in their original order
  (\<open>nths\<close> keeps the order of the list); a post without such a verdict is dropped.
\<close>

theorem filter_keeps_relevant:
  "filterReply l preferences posts = Inr (Some (JArr (map verdictJson verdicts))) \<Longrightarrow>
   filterRelevantPosts l posts preferences =
     Inr (nths posts {i. \<exists>v. find (\<lambda>v. postIndex v = int i + 1) verdicts = Some v \<and> isRelevant v})"
proof -
  assume reply: "filterReply l preferences posts = Inr (Some (JArr (map verdictJson verdicts)))"
  have "keepsPost (JArr (map verdictJson verdicts)) =
          (\<lambda>i. Inr (\<exists>v. find (\<lambda>v. postIndex v = int i + 1) verdicts = Some v \<and> isRelevant v))"
    by (rule ext) (rule keepsPost_verdicts)
  then show ?thesis
    by (simp add: filterRelevantPosts_def reply filterIndexed_nths)
qed

theorem filter_keeps_relevant_witness:
  "filterReply sampleLlm ''quiet area'' samplePosts = Inr (Some (JArr (map verdictJson sampleVerdicts))) \<and>
   filterRelevantPosts sampleLlm samplePosts ''quiet area'' = Inr (take 1 samplePosts)"
proof -
  have h: "filterReply sampleLlm ''quiet area'' samplePosts = Inr (Some (JArr (map verdictJson sampleVerdicts)))"
    by (rule sample_filter_reply)
  have "nths samplePosts {i. \<exists>v. find (\<lambda>v. postIndex v = int i + 1) sampleVerdicts = Some v \<and> isRelevant v} =
          take 1 samplePosts"
    by (simp add: nths_def samplePosts_def sampleVerdicts_def)
  with filter_keeps_relevant[OF h] h show ?thesis by simp
qed

section \<open>Properties of forum discovery\<close>

lemma toLowerCase_Nil_iff: "toLowerCase s = [] \<longleftrightarrow> s = []"
  by (simp add: toLowerCase_def)

lemma lower_Springfield: "toLowerCase ''Springfield'' = ''springfield''"
  by (simp add: toLowerCase_def lowerChar_def)

text \<open>
  Claim C7.  For a city as the callers pass it, a non-empty string: when the search returns
  and no subreddit passes the relevance test, \<open>discoverSubreddits\<close> returns the four names
  built from the city; when the search request fails it returns the two-element fallback
  (for any string); and it returns a list in every case, so nothing is thrown to the caller.
\<close>

theorem discover_fallbacks:
  "(city \<noteq> [] \<longrightarrow> subredditSearch r city = Inr response \<longrightarrow>
      collectSubreddits city (case response of None \<Rightarrow> [] | Some children \<Rightarrow> children) [] = Inr [] \<longrightarrow>
      discoverSubreddits r city =
        Inr [toLowerCase city, toLowerCase city @ ''housing'', ''Ask'' @ city,
             toLowerCase city @ ''neighborhoods'']) \<and>
   (subredditSearch r city = Inl e \<longrightarrow>
      discoverSubreddits r city = Inr [toLowerCase city, ''Ask'' @ city]) \<and>
   (\<exists>subreddits. discoverSubreddits r city = Inr subreddits)"
  by (auto simp: discoverSubreddits_def searchSubreddits_def Let_def toLowerCase_Nil_iff
           split: sum.splits option.splits)

theorem discover_fallbacks_witness:
  "discoverSubreddits quietReddit ''Springfield'' =
     Inr [''springfield'', ''springfieldhousing'', ''AskSpringfield'', ''springfieldneighborhoods''] \<and>
   discoverSubreddits (quietReddit\<lparr>subredditSearch := (\<lambda>q. Inl RequestFailed)\<rparr>) ''Springfield'' =
     Inr [''springfield'', ''AskSpringfield'']"
proof -
  have a: "subredditSearch quietReddit ''Springfield'' = Inr (Some [])"
    by (simp add: quietReddit_def)
  have b: "subredditSearch (quietReddit\<lparr>subredditSearch := (\<lambda>q. Inl RequestFailed)\<rparr>) ''Springfield'' = Inl RequestFailed"
    by simp
  from discover_fallbacks[of "''Springfield''" quietReddit "Some []" RequestFailed] a
  have 1: "discoverSubreddits quietReddit ''Springfield'' =
     Inr [''springfield'', ''springfieldhousing'', ''AskSpringfield'', ''springfieldneighborhoods'']"
    by (simp add: lower_Springfield)
  from discover_fallbacks[of "''Springfield''" "quietReddit\<lparr>subredditSearch := (\<lambda>q. Inl RequestFailed)\<rparr>" "None" RequestFailed] b
  have 2: "discoverSubreddits (quietReddit\<lparr>subredditSearch := (\<lambda>q. Inl RequestFailed)\<rparr>) ''Springfield'' =
     Inr [''springfield'', ''AskSpringfield'']"
    by (simp add: lower_Springfield)
  from 1 2 show ?thesis by simp
qed

text \<open>
  No caller passes the empty string: \<open>scrapeReddit\<close> asks for discovery only when the city is
  truthy, and the handlers answer an empty city with status 400 before anything else.  At
  the empty string the fallback, filtered by \<open>s.length > 0\<close>, would have three names.
\<close>

lemma scrape_empty_city: "scrapeReddit r queries (Some []) None = scrapeReddit r queries None None"
  by (simp add: scrapeReddit_def)

lemma handlers_reject_empty_city:
  "reqCity req = Some [] \<Longrightarrow>
   recommendationsAmenityFirst w req = BadRequest ''City and preferences are required'' \<and>
   recommendationsQueryFirst w req = BadRequest ''City and preferences are required''"
  by (simp add: recommendationsAmenityFirst_def recommendationsQueryFirst_def split: option.splits)

lemma discover_empty_city:
  "discoverSubreddits quietReddit [] = Inr [''housing'', ''Ask'', ''neighborhoods'']"
  by (simp add: discoverSubreddits_def searchSubreddits_def quietReddit_def toLowerCase_def)

section \<open>Properties of the recommendation endpoint\<close>

text \<open>
  The sample world, evaluated through both servers.
\<close>

lemma sample_scrape:
  "scrapeReddit sampleReddit [q] (Some ''Springfield'') None = Inr samplePosts"
  by (simp add: scrapeReddit_def discoverSubreddits_def searchSubreddits_def sampleReddit_def
        scrapeQuery_def List.map_filter_def postContent_def samplePosts_def Let_def)

lemma sample_filter:
  "filterRelevantPosts sampleLlm samplePosts p = Inr (take 1 samplePosts)"
  by (simp add: filterRelevantPosts_def sampleLlm_def samplePosts_def keepsPost_def matchesIndex_def
        verdictJson_def)

lemma sample_posts_length: "length samplePosts = 2" "length (take 1 samplePosts) = 1"
  by (simp_all add: samplePosts_def)

lemma sample_city: "getCityCoordinates sampleMaps c = Some \<lparr>lat = 0, lng = 0\<rparr>"
  by (simp add: getCityCoordinates_def sampleMaps_def)

lemma sample_display:
  "getAmenityCoordinates sampleMaps ''Springfield'' ''gym'' 10 [] =
     [\<lparr>lat = 1, lng = 1, name = ''Gym A'', type = ''gym''\<rparr>,
      \<lparr>lat = 2, lng = 2, name = ''Gym B'', type = ''gym''\<rparr>]"
  by (simp add: getAmenityCoordinates_def getCityCoordinates_def sampleMaps_def toPlace_def)

lemma sample_extract:
  "extractAmenities (Some [\<lparr>requestedType = ''gym'', specificNames = Some []\<rparr>]) = ([''gym''], [(''gym'', [])])"
  by (simp add: extractAmenities_def)

lemma sample_scored_brands:
  "scoreNeighborhoodsByAmenities sampleMaps ''Springfield'' [''gym''] [(''gym'', [])] =
   scoreNeighborhoodsByAmenities sampleMaps ''Springfield'' [''gym''] []"
  by (simp add: scoreNeighborhoodsByAmenities_def tallyType_def brandNamesFor_def)

lemma sample_world_fields:
  "theMaps sampleWorld = sampleMaps" "theReddit sampleWorld = sampleReddit" "theLlm sampleWorld = sampleLlm"
  by (simp_all add: sampleWorld_def)

lemma sample_llm_fields:
  "amenityReply sampleLlm p = Inr (Some [\<lparr>requestedType = ''gym'', specificNames = Some []\<rparr>])"
  "qualitativeReply sampleLlm c p = Inr (Some [''quiet neighborhoods''])"
  "scoringReply sampleLlm c p ns d = Inr None"
  "concernsReply sampleLlm c p ns d = Inr None"
  by (simp_all add: sampleLlm_def)

lemma sample_qualitative:
  "qualitativeStage sampleWorld ''Springfield'' ''close to gyms, quiet area'' [''gym''] [(''gym'', [])]
     sampleRanked = Ok sampleBody"
  by (simp add: qualitativeStage_def sample_world_fields sample_llm_fields sample_scrape sample_filter
        sample_posts_length sampleRanked_def downtownAggregate_def fallbackConcerns_def toRecommendation_def displayAmenities_def
        brandNamesFor_def sample_display neighborhoodSubsets_def sampleBody_def showNat.simps
        sample_city Let_def)

lemma sample_ranked_length: "scoredNeighborhoods sampleRanked \<noteq> []"
  by (simp add: sampleRanked_def downtownAggregate_def)

lemma sample_response:
  "recommendationsAmenityFirst sampleWorld sampleRequest = Ok sampleBody"
  by (simp add: recommendationsAmenityFirst_def sampleRequest_def sample_world_fields sample_llm_fields
        sample_extract scoringStage_def sample_scored_brands sample_scored sample_qualitative
        sample_ranked_length)

lemma sample_llm_query_first:
  "parsingReply sampleLlm c p = Inr (Some \<lparr>extractedPreferences = [''quiet''], redditQueries = [''quiet neighborhoods'']\<rparr>)"
  "analysisReply sampleLlm c p d prefs =
     Inr (Analysis (map sampleRecommendation [''A'', ''B'', ''C'', ''D'', ''E'', ''F'']) (Some ''Six areas''))"
  "amenityTypesReply sampleLlm p = Inr (Some [''gym''])"
  by (simp_all add: sampleLlm_def)

lemma sample_simple_display:
  "getAmenityCoordinatesSimple sampleMaps ''Springfield'' ''gym'' 5 =
     [\<lparr>lat = 1, lng = 1, name = ''Gym A'', type = ''gym''\<rparr>,
      \<lparr>lat = 2, lng = 2, name = ''Gym B'', type = ''gym''\<rparr>]"
  by (simp add: getAmenityCoordinatesSimple_def getCityCoordinates_def sampleMaps_def toPlace_def)

lemma sample_boundaries: "getNeighborhoodBoundaries sampleWorld h c = None"
  by (simp add: getNeighborhoodBoundaries_def sampleWorld_def)

lemma sample_query_first:
  "recommendationsQueryFirst sampleWorld sampleRequest = Ok sampleQueryFirstBody"
  by (simp add: recommendationsQueryFirst_def queryFirstStages_def queryFirstMap_def sampleRequest_def
        sample_world_fields sample_llm_query_first sample_scrape sample_filter sample_posts_length
        sample_city sample_simple_display sample_boundaries List.map_filter_def
        sampleQueryFirstBody_def Let_def)

text \<open>
  Claim C8.  When the reply to the amenity prompt does not parse, the amenity list is exactly
  \<open>["gym", "grocery_or_supermarket"]\<close> with no brand names, and the handler goes on to the
  scoring step with that list: the failure is caught and raises nothing.
\<close>

theorem amenity_defaults:
  "amenityReply (theLlm w) preferences = Inr None \<Longrightarrow>
   reqCity req = Some city \<Longrightarrow> reqPreferences req = Some preferences \<Longrightarrow>
   city \<noteq> [] \<Longrightarrow> preferences \<noteq> [] \<Longrightarrow>
   extractAmenities None = ([''gym'', ''grocery_or_supermarket''], []) \<and>
   recommendationsAmenityFirst w req =
     scoringStage w city preferences [''gym'', ''grocery_or_supermarket''] []"
  by (simp add: recommendationsAmenityFirst_def extractAmenities_def)

theorem amenity_defaults_witness:
  "amenityReply (theLlm unparsableWorld) ''close to gyms, quiet area'' = Inr None \<and>
   recommendationsAmenityFirst unparsableWorld sampleRequest =
     scoringStage unparsableWorld ''Springfield'' ''close to gyms, quiet area''
       [''gym'', ''grocery_or_supermarket''] []"
proof -
  have h: "amenityReply (theLlm unparsableWorld) ''close to gyms, quiet area'' = Inr None"
    by (simp add: unparsableWorld_def unparsableLlm_def)
  from amenity_defaults[OF h, of sampleRequest "''Springfield''"] h
  show ?thesis by (simp add: sampleRequest_def)
qed

lemma no_amenity_fields:
  "amenityReply (theLlm noAmenityWorld) p = Inr (Some [])"
  by (simp add: noAmenityWorld_def)

text \<open>
  Claim C3.  It asks for a successful response with the single entry \<open>Downtown\<close> whenever no
  amenity is extracted.  The amenity-first server instead fails every such request: the
  branch reads \<open>redditData\<close> before its declaration, and the \<open>ReferenceError\<close> becomes status
  500.  The sample request, with a model that extracts no amenity:
\<close>

theorem no_amenity_branch_fails:
  "recommendationsAmenityFirst noAmenityWorld sampleRequest = ServerError ReferenceError"
  by (simp add: recommendationsAmenityFirst_def sampleRequest_def no_amenity_fields extractAmenities_def
        scoringStage_def)

lemma status_qualitativeStage: "status (qualitativeStage w city preferences needed sb ranked) \<noteq> 400"
  by (simp add: qualitativeStage_def Let_def split: sum.splits option.splits)

lemma status_scoringStage:
  "status (scoringStage w city preferences needed sb) = 400 \<longleftrightarrow>
     needed \<noteq> [] \<and> scoredNeighborhoods (scoreNeighborhoodsByAmenities (theMaps w) city needed sb) = []"
  by (simp add: scoringStage_def Let_def status_qualitativeStage)

lemma barren_fields:
  "amenityReply (theLlm barrenWorld) p = Inr (Some [\<lparr>requestedType = ''gym'', specificNames = Some []\<rparr>])"
  "getAllAmenityCoordinates (theMaps barrenWorld) c t [] = []"
  by (simp_all add: barrenWorld_def sampleWorld_def sampleLlm_def getAllAmenityCoordinates_def
        getCityCoordinates_def sampleMaps_def eval_nat_numeral)

lemma barren_scored:
  "scoredNeighborhoods (scoreNeighborhoodsByAmenities (theMaps barrenWorld) ''Springfield'' [''gym''] [(''gym'', [])]) = []"
  by (simp add: scoreNeighborhoodsByAmenities_def tallyType_def brandNamesFor_def barren_fields sortByScore_def)

text \<open>
  Claim C9, amended.  The amenity-first server answers with status 400 exactly when the city
  or the preferences are missing or empty, or when the amenity call returned, the amenity
  list is not empty and the scorer finds no neighborhood for it.
\<close>

theorem bad_request_iff:
  "status (recommendationsAmenityFirst w req) = 400 \<longleftrightarrow>
     missing (reqCity req) \<or> missing (reqPreferences req) \<or>
     (\<exists>city preferences parsed.
        reqCity req = Some city \<and> reqPreferences req = Some preferences \<and>
        amenityReply (theLlm w) preferences = Inr parsed \<and>
        fst (extractAmenities parsed) \<noteq> [] \<and>
        scoredNeighborhoods
          (scoreNeighborhoodsByAmenities (theMaps w) city
             (fst (extractAmenities parsed)) (snd (extractAmenities parsed))) = [])"
  by (auto simp: recommendationsAmenityFirst_def missing_def status_scoringStage
           split: option.splits sum.splits prod.splits)

theorem bad_request_iff_witness:
  "status (recommendationsAmenityFirst barrenWorld sampleRequest) = 400 \<and>
   status (recommendationsAmenityFirst sampleWorld sampleRequest) = 200 \<and>
   status (recommendationsAmenityFirst sampleWorld (sampleRequest\<lparr>reqCity := None\<rparr>)) = 400"
proof -
  have 1: "status (recommendationsAmenityFirst barrenWorld sampleRequest) = 400"
    unfolding bad_request_iff[of barrenWorld sampleRequest]
    by (simp add: sampleRequest_def barren_fields sample_extract barren_scored)
  have 2: "status (recommendationsAmenityFirst sampleWorld sampleRequest) = 200"
    by (simp add: sample_response)
  have 3: "status (recommendationsAmenityFirst sampleWorld (sampleRequest\<lparr>reqCity := None\<rparr>)) = 400"
    unfolding bad_request_iff by (simp add: missing_def)
  from 1 2 3 show ?thesis by simp
qed

text \<open>
  The claim as stated fails: with both fields present and a provider that finds no place,
  the status is 400.
\<close>

theorem bad_request_counterexample:
  "status (recommendationsAmenityFirst barrenWorld sampleRequest) = 400 \<and>
   \<not> missing (reqCity sampleRequest) \<and> \<not> missing (reqPreferences sampleRequest)"
  by (simp add: recommendationsAmenityFirst_def sampleRequest_def barren_fields sample_extract
        scoringStage_def barren_scored missing_def)

lemma capped_Nil: "capped n []"
  by (simp add: capped_def)

lemma capped_update: "capped n shown \<Longrightarrow> length ps \<le> n \<Longrightarrow> capped n (AList.update k ps shown)"
  unfolding capped_def using set_update_subset[of k ps shown] by fastforce

lemma capped_foldl:
  "capped n shown \<Longrightarrow> (\<And>k. length (f k) \<le> n) \<Longrightarrow>
   capped n (foldl (\<lambda>acc k. AList.update k (f k) acc) shown ks)"
  by (induction ks arbitrary: shown) (simp_all add: capped_update)

lemma getAmenityCoordinates_cap: "length (getAmenityCoordinates m city t limit names) \<le> limit"
  by (simp add: getAmenityCoordinates_def split: option.splits sum.splits)

lemma getAmenityCoordinatesSimple_cap: "length (getAmenityCoordinatesSimple m city t limit) \<le> limit"
  by (simp add: getAmenityCoordinatesSimple_def split: option.splits sum.splits)

lemma displayAmenities_cap: "capped 10 (displayAmenities m city needed sb)"
  unfolding displayAmenities_def
  by (rule capped_foldl) (simp_all add: capped_Nil getAmenityCoordinates_cap)

lemma subset_cap:
  "capped 5 (foldl (\<lambda>inner amenityType.
                          AList.update amenityType
                            (case map_of attributed hoodName of
                               None \<Rightarrow> []
                             | Some byType \<Rightarrow>
                                 (case map_of byType amenityType of
                                    None \<Rightarrow> []
                                  | Some ps \<Rightarrow> take 5 ps))
                            inner)
                   [] needed)"
  by (rule capped_foldl) (simp_all add: capped_Nil split: option.splits)

lemma allCapped_update:
  "allCapped n shown \<Longrightarrow> capped n byType \<Longrightarrow> allCapped n (AList.update k byType shown)"
  unfolding allCapped_def using set_update_subset[of k byType shown] by fastforce

lemma allCapped_foldl:
  "allCapped n shown \<Longrightarrow> (\<And>x. capped n (g x)) \<Longrightarrow>
   allCapped n (foldl (\<lambda>acc x. AList.update (key x) (g x) acc) shown xs)"
  by (induction xs arbitrary: shown) (simp_all add: allCapped_update)

lemma neighborhoodSubsets_cap: "allCapped 5 (neighborhoodSubsets needed attributed recs)"
  unfolding neighborhoodSubsets_def
  by (rule allCapped_foldl) (simp_all add: allCapped_def subset_cap)

lemma qualitativeStage_caps:
  "qualitativeStage w city preferences needed sb ranked = Ok b \<Longrightarrow> withinCaps b"
  by (auto simp: qualitativeStage_def Let_def displayAmenities_cap neighborhoodSubsets_cap withinCaps_def
           split: sum.splits option.splits if_splits)

lemma scoringStage_caps:
  "scoringStage w city preferences needed sb = Ok b \<Longrightarrow> withinCaps b"
  by (auto simp: scoringStage_def Let_def split: if_splits dest: qualitativeStage_caps)

lemma amenityFirst_caps:
  "recommendationsAmenityFirst w req = Ok b \<Longrightarrow> withinCaps b"
  by (auto simp: recommendationsAmenityFirst_def
           split: option.splits sum.splits if_splits prod.splits dest: scoringStage_caps)

lemma queryFirstMap_caps:
  "queryFirstMap w city preferences recs recSummary = Ok b \<Longrightarrow> mapData b = Some md \<Longrightarrow>
   capped 5 (amenities md)"
proof -
  have "capped 5 (foldl (\<lambda>shown amenityType.
            AList.update amenityType (getAmenityCoordinatesSimple (theMaps w) city amenityType 5) shown)
          [] needed)" for needed
    by (rule capped_foldl) (simp_all add: capped_Nil getAmenityCoordinatesSimple_cap)
  then show "queryFirstMap w city preferences recs recSummary = Ok b \<Longrightarrow> mapData b = Some md \<Longrightarrow>
   capped 5 (amenities md)"
    by (auto simp: queryFirstMap_def Let_def split: sum.splits)
qed

lemma queryFirstStages_caps:
  "queryFirstStages w city preferences = Ok b \<Longrightarrow> mapData b = Some md \<Longrightarrow> capped 5 (amenities md)"
  by (auto simp: queryFirstStages_def Let_def
           split: sum.splits option.splits if_splits analysis.splits dest: queryFirstMap_caps)

lemma queryFirst_caps:
  "recommendationsQueryFirst w req = Ok b \<Longrightarrow> mapData b = Some md \<Longrightarrow> capped 5 (amenities md)"
  by (auto simp: recommendationsQueryFirst_def
           split: option.splits if_splits dest: queryFirstStages_caps)

text \<open>
  Claim C4, amended.  Every successful response of the amenity-first server has at most 5
  recommendations, at most 10 places for each type in \<open>mapData.amenities\<close> and at most 5
  places in each sequence of \<open>mapData.neighborhoodAmenities\<close>; every successful response of
  the query-first server that carries map data has at most 5 places for each type in
  \<open>mapData.amenities\<close>.  Nothing is claimed about the number of recommendations of the
  query-first server.
\<close>

theorem cap_enforcement:
  "(recommendationsAmenityFirst w req = Ok b \<longrightarrow>
      length (recommendations b) \<le> 5 \<and>
      (\<exists>md sub. mapData b = Some md \<and> capped 10 (amenities md) \<and>
         mapNeighborhoodAmenities md = Some sub \<and> allCapped 5 sub)) \<and>
   (recommendationsQueryFirst w req = Ok b' \<longrightarrow>
      (\<forall>md. mapData b' = Some md \<longrightarrow> capped 5 (amenities md)))"
  using amenityFirst_caps[of w req b] queryFirst_caps[of w req b'] unfolding withinCaps_def by blast

theorem cap_enforcement_witness:
  "recommendationsAmenityFirst sampleWorld sampleRequest = Ok sampleBody \<and>
   recommendationsQueryFirst sampleWorld sampleRequest = Ok sampleQueryFirstBody \<and>
   length (recommendations sampleBody) \<le> 5 \<and>
   (\<exists>md sub. mapData sampleBody = Some md \<and> capped 10 (amenities md) \<and>
      mapNeighborhoodAmenities md = Some sub \<and> allCapped 5 sub) \<and>
   (\<exists>md. mapData sampleQueryFirstBody = Some md \<and> capped 5 (amenities md))"
proof -
  have md: "\<exists>md. mapData sampleQueryFirstBody = Some md"
    by (simp add: sampleQueryFirstBody_def)
  from cap_enforcement[of sampleWorld sampleRequest sampleBody sampleQueryFirstBody]
    sample_response sample_query_first md
  show ?thesis by auto
qed

text \<open>
  The claim as stated fails for the query-first server, which forwards the entries the model
  wrote: here six of them.
\<close>

theorem query_first_uncapped_counterexample:
  "recommendationsQueryFirst sampleWorld sampleRequest = Ok sampleQueryFirstBody \<and>
   length (recommendations sampleQueryFirstBody) = 6 \<and>
   \<not> length (recommendations sampleQueryFirstBody) \<le> 5"
  by (simp add: sample_query_first) (simp add: sampleQueryFirstBody_def)

lemma object_fields:
  "theMaps objectReplyWorld = sampleMaps" "theReddit objectReplyWorld = sampleReddit"
  "amenityReply (theLlm objectReplyWorld) p = Inr (Some [\<lparr>requestedType = ''gym'', specificNames = Some []\<rparr>])"
  "qualitativeReply (theLlm objectReplyWorld) c p = Inr (Some [''quiet neighborhoods''])"
  "filterReply (theLlm objectReplyWorld) p posts = Inr (Some (JObj [(''postIndex'', JNum 1), (''isRelevant'', JBool True)]))"
  by (simp_all add: objectReplyWorld_def sampleWorld_def sampleLlm_def)

text \<open>
  Claim C10.  A relevance reply that parses to anything but an array makes
  \<open>filterRelevantPosts\<close> throw a \<open>TypeError\<close> as soon as there is a post to filter, and a request
  of the amenity-first server that reaches the filter with such a reply ends with status 500.
\<close>

theorem non_array_reply_fails:
  assumes "reqCity req = Some city" and "reqPreferences req = Some preferences"
    and "city \<noteq> []" and "preferences \<noteq> []"
    and "amenityReply (theLlm w) preferences = Inr parsed"
    and "extractAmenities parsed = (needed, sb)" and "needed \<noteq> []"
    and "scoredNeighborhoods (scoreNeighborhoodsByAmenities (theMaps w) city needed sb) \<noteq> []"
    and "qualitativeReply (theLlm w) city preferences = Inr parsedQueries"
    and "scrapeReddit (theReddit w)
           (case parsedQueries of
              None \<Rightarrow> [''neighborhoods in '' @ city, ''best places to live in '' @ city]
            | Some qs \<Rightarrow> qs) (Some city) None = Inr posts"
    and "posts \<noteq> []"
    and "filterReply (theLlm w) preferences posts = Inr (Some j)"
    and "\<forall>xs. j \<noteq> JArr xs"
  shows "filterRelevantPosts (theLlm w) posts preferences = Inl TypeError \<and>
         recommendationsAmenityFirst w req = ServerError TypeError \<and>
         status (recommendationsAmenityFirst w req) = 500"
proof -
  have f: "filterRelevantPosts (theLlm w) posts preferences = Inl TypeError"
    using assms(11-13) by (rule_tac filter_not_array) auto
  have "qualitativeStage w city preferences needed sb
          (scoreNeighborhoodsByAmenities (theMaps w) city needed sb) = ServerError TypeError"
    using assms(9-11) f by (simp add: qualitativeStage_def Let_def)
  then have "recommendationsAmenityFirst w req = ServerError TypeError"
    using assms(1-8) by (simp add: recommendationsAmenityFirst_def scoringStage_def Let_def)
  with f show ?thesis by simp
qed

theorem non_array_reply_fails_witness:
  "filterRelevantPosts (theLlm objectReplyWorld) samplePosts ''close to gyms, quiet area'' = Inl TypeError \<and>
   recommendationsAmenityFirst objectReplyWorld sampleRequest = ServerError TypeError \<and>
   status (recommendationsAmenityFirst objectReplyWorld sampleRequest) = 500"
proof -
  have ranked: "scoredNeighborhoods (scoreNeighborhoodsByAmenities (theMaps objectReplyWorld)
                  ''Springfield'' [''gym''] [(''gym'', [])]) \<noteq> []"
    by (simp add: object_fields sample_scored_brands sample_scored sample_ranked_length)
  have posts: "scrapeReddit (theReddit objectReplyWorld)
           (case Some [''quiet neighborhoods''] of
              None \<Rightarrow> [''neighborhoods in '' @ ''Springfield'', ''best places to live in '' @ ''Springfield'']
            | Some qs \<Rightarrow> qs) (Some ''Springfield'') None = Inr samplePosts"
    by (simp add: object_fields sample_scrape)
  have nonempty: "samplePosts \<noteq> []" by (simp add: samplePosts_def)
  show ?thesis
    by (rule non_array_reply_fails[where city = "''Springfield''" and parsedQueries = "Some [''quiet neighborhoods'']",
              OF _ _ _ _ object_fields(3) sample_extract _ ranked object_fields(4) posts nonempty object_fields(5)])
       (simp_all add: sampleRequest_def)
qed

end
